theory Spec2Isabelle
  imports Complex_Main
begin

section \<open>Artifact synthesis for histology images: a model of \<^verbatim>\<open>img_manip.py\<close>\<close>

text \<open>
  The module \<^verbatim>\<open>image_manipulation/img_manip.py\<close> draws artifacts (marker lines, tissue
  folds, uneven sectioning, uneven illumination, bubbles, stain shifts, tears) onto an image.
  Each Python function is translated into a HOL function of the same name.  Exceptions are
  values of a sum type, numpy's global random generator is a state that every function
  takes and returns, and Python's floats are read as real numbers.
\<close>

subsection \<open>Exceptions\<close>

text \<open>
  The source has no \<^verbatim>\<open>raise\<close> statement and defines no exception class: every
  failure is a built-in exception coming out of an indexing expression, an arithmetic
  operator or a library call.  \<open>InvalidInputError\<close> is the class that the specification's
  taxonomy names; nothing in the source constructs it.
\<close>

datatype error = ValueError | TypeError | IndexError | KeyError | NameError | InvalidInputError

definition bindE :: "error + 'a \<Rightarrow> ('a \<Rightarrow> error + 'b) \<Rightarrow> error + 'b" where
  "bindE m f = (case m of Inl e \<Rightarrow> Inl e | Inr x \<Rightarrow> f x)"

subsection \<open>Seed derivation in \<^verbatim>\<open>apply_artifact\<close>\<close>

text \<open>
  \<^verbatim>\<open>artifactType.lower()\<close>, on the ASCII letters.
\<close>

definition lower_char :: "char \<Rightarrow> char" where
  "lower_char c =
     (let n = (of_char c :: nat)
      in if of_char CHR ''A'' \<le> n \<and> n \<le> of_char CHR ''Z'' then char_of (n + 32) else c)"

definition lower :: "string \<Rightarrow> string" where
  "lower s = map lower_char s"

text \<open>
  \<^verbatim>\<open>typeSeedAdd = {'marker' : 1, 'fold': 2, 'sectioning': 3, 'illumination': 4,
                 'bubbles': 5, 'stain' : 6, 'tear': 7}\<close>
\<close>

definition typeSeedAdd :: "(string \<times> int) list" where
  "typeSeedAdd =
     [(''marker'', 1), (''fold'', 2), (''sectioning'', 3), (''illumination'', 4),
      (''bubbles'', 5), (''stain'', 6), (''tear'', 7)]"

text \<open>
  \<^verbatim>\<open>typeTileRand = {'marker' : True, 'fold': True, 'sectioning': True,
                  'illumination': True, 'bubbles': True, 'stain' : False, 'tear': True}\<close>
\<close>

definition typeTileRand :: "(string \<times> bool) list" where
  "typeTileRand =
     [(''marker'', True), (''fold'', True), (''sectioning'', True), (''illumination'', True),
      (''bubbles'', True), (''stain'', False), (''tear'', True)]"

text \<open>A dictionary subscript \<^verbatim>\<open>d[k]\<close>: a missing key raises \<^verbatim>\<open>KeyError\<close>.\<close>

definition subscript :: "('k \<times> 'v) list \<Rightarrow> 'k \<Rightarrow> error + 'v" where
  "subscript d k = (case map_of d k of None \<Rightarrow> Inl KeyError | Some v \<Rightarrow> Inr v)"

text \<open>\<^verbatim>\<open>randMax = (2**32) -1  # max size of the random seed\<close>\<close>

definition randMax :: int where
  "randMax = 2 ^ 32 - 1"

text \<open>
  The identity string \<^verbatim>\<open>fID\<close> of \<^verbatim>\<open>apply_artifact\<close>: the two directory names above
  the file and, for a per-tile seed, the file's name without its extension.  The path
  functions of \<^verbatim>\<open>os.path\<close> are outside the module; \<open>join\<close> stands for
  \<^verbatim>\<open>os.path.join\<close>.
\<close>

definition apply_artifact_fID ::
  "(string list \<Rightarrow> string) \<Rightarrow> string \<Rightarrow> string \<Rightarrow> string \<Rightarrow> string \<Rightarrow> bool option
     \<Rightarrow> error + string" where
  "apply_artifact_fID join rDir2 rDir1 fNameNoExt artifactType perTileRand =
     bindE (case perTileRand of
              None \<Rightarrow> subscript typeTileRand (lower artifactType)
            | Some b \<Rightarrow> Inr b)
       (\<lambda>perTile.
          if perTile then Inr (join [rDir2, rDir1, fNameNoExt])
          else Inr (join [rDir2, rDir1]))"

text \<open>
  The seed, lines 858 to 865 of \<^verbatim>\<open>apply_artifact\<close>:
  \<^verbatim>\<open>
    h = blake2s()
    h.update(fID.encode('utf-8'))
    h_int = int(h.hexdigest(), 16)
    random_hash = h_int + randAdd + typeSeedAdd[artifactType]
    random_seed = random_hash % randMax
  \<close>
  \<open>blake2s\<close> stands for the digest of \<^verbatim>\<open>hashlib\<close> read as an integer.  Python's
  \<^verbatim>\<open>%\<close> with a positive modulus is HOL's \<open>mod\<close> on \<open>int\<close>: the result is never
  negative.
\<close>

definition apply_artifact_seed ::
  "(string \<Rightarrow> int) \<Rightarrow> string \<Rightarrow> string \<Rightarrow> int \<Rightarrow> error + int" where
  "apply_artifact_seed blake2s fID artifactType randAdd =
     bindE (subscript typeSeedAdd (lower artifactType))
       (\<lambda>off. let h_int = blake2s fID;
                  random_hash = h_int + randAdd + off
              in Inr (random_hash mod randMax))"

text \<open>The seven artifact types, as \<^verbatim>\<open>apply_artifact\<close> dispatches on them.\<close>

definition artifact_types :: "string list" where
  "artifact_types =
     [''marker'', ''fold'', ''sectioning'', ''illumination'', ''bubbles'', ''stain'', ''tear'']"

subsection \<open>Images, arrays and the libraries\<close>

text \<open>
  A numpy array of shape (height, width) is a list of rows; an array of shape
  (height, width, channels) has a list of channel values in each cell.  A point of a path
  is \<open>(x, y)\<close>, so a point addresses row \<open>y\<close> and column \<open>x\<close>.
\<close>

type_synonym 'a grid = "'a list list"

type_synonym pt = "real \<times> real"

datatype mode = ModeL | ModeRGB | ModeRGBA | ModeHSV

text \<open>A PIL image: its mode, its \<^verbatim>\<open>size\<close> (width, height) and its 8-bit channel values.\<close>

record image =
  im_mode :: mode
  im_size :: "nat \<times> nat"
  im_data :: "nat list grid"

text \<open>\<^verbatim>\<open>Image.fromarray(arr, mode)\<close>: the image of an array of 8-bit values.\<close>

definition fromarray :: "nat list grid \<Rightarrow> mode \<Rightarrow> image" where
  "fromarray arr m =
     \<lparr>im_mode = m,
      im_size = ((case arr of [] \<Rightarrow> 0 | r # _ \<Rightarrow> length r), length arr),
      im_data = arr\<rparr>"

text \<open>
  The module reaches the world through numpy's global random generator and through
  functions of scipy, OpenCV, PIL and the deconvolution package.  None of them belongs to
  the module: they are the fields of a record that every function of the model takes as
  its first argument, and \<open>'g\<close> is the state of the global generator.

  \<^item> \<open>seed_int s\<close> is the generator state after \<^verbatim>\<open>np.random.seed(s)\<close> with an integer:
    it depends on \<open>s\<close> alone.  \<open>seed_os g\<close> is the state after
    \<^verbatim>\<open>np.random.seed(None)\<close>, which reseeds from the operating system.
  \<^item> \<open>rng_int low high\<close> is one draw of \<^verbatim>\<open>np.random.randint(low, high)\<close> and
    \<open>rng_uniform low high\<close> one draw of \<^verbatim>\<open>np.random.uniform(low, high)\<close>.
  \<^item> \<open>np_sqrt\<close> is \<^verbatim>\<open>np.sqrt\<close> on a float.
  \<^item> \<open>pchip_interpolate xi yi x\<close> is scipy's interpolation of the knots \<open>(xi, yi)\<close>
    at the positions \<open>x\<close>; it may raise.
  \<^item> \<open>distance_transform_edt\<close> is scipy's Euclidean distance to the nearest zero cell.
  \<^item> \<open>mvn_pdf mean cov pos\<close> is \<^verbatim>\<open>multivariate_normal(mean, cov).pdf(pos)\<close>, the
    symmetric covariance given as (xx, yy, xy).
  \<^item> \<open>cv_blur\<close>, \<open>GaussianBlur\<close>, \<open>getPerspectiveTransform\<close>, \<open>warpPerspective\<close>
    are OpenCV's; \<open>pad_symmetric\<close> is \<^verbatim>\<open>np.pad(..., mode='symmetric')\<close>.
  \<^item> \<open>convert\<close> and \<open>composite\<close> are PIL's \<^verbatim>\<open>Image.convert\<close> and
    \<^verbatim>\<open>Image.composite\<close>.
  \<^item> \<open>deconvolve im basis\<close> is what \<^verbatim>\<open>adjust_stain\<close> takes from the deconvolution
    package: the three basis vectors of \<^verbatim>\<open>get_basis()\<close> and the three density maps of
    \<^verbatim>\<open>out_scalars()\<close> after \<^verbatim>\<open>_array_positive\<close>; \<open>array_to_colour_255\<close> is the
    package's \<^verbatim>\<open>_array_to_colour_255\<close>.
\<close>

record 'g lib =
  seed_int :: "int \<Rightarrow> 'g"
  seed_os :: "'g \<Rightarrow> 'g"
  rng_int :: "int \<Rightarrow> int \<Rightarrow> 'g \<Rightarrow> int \<times> 'g"
  rng_uniform :: "real \<Rightarrow> real \<Rightarrow> 'g \<Rightarrow> real \<times> 'g"
  np_sqrt :: "real \<Rightarrow> real"
  pchip_interpolate :: "real list \<Rightarrow> pt list \<Rightarrow> real list \<Rightarrow> error + pt list"
  distance_transform_edt :: "real grid \<Rightarrow> real grid"
  mvn_pdf :: "pt \<Rightarrow> real \<times> real \<times> real \<Rightarrow> pt grid \<Rightarrow> error + real grid"
  cv_blur :: "real grid \<Rightarrow> nat \<times> nat \<Rightarrow> error + real grid"
  GaussianBlur :: "real list grid \<Rightarrow> int \<times> int \<Rightarrow> error + real list grid"
  getPerspectiveTransform :: "pt list \<Rightarrow> pt list \<Rightarrow> error + real grid"
  warpPerspective :: "nat list grid \<Rightarrow> real grid \<Rightarrow> nat \<times> nat \<Rightarrow> error + nat list grid"
  pad_symmetric :: "nat list grid \<Rightarrow> nat \<times> nat \<Rightarrow> nat list grid"
  convert :: "image \<Rightarrow> mode \<Rightarrow> image"
  composite :: "image \<Rightarrow> image \<Rightarrow> image \<Rightarrow> error + image"
  deconvolve :: "image \<Rightarrow> real list list \<Rightarrow> error + (real list list \<times> real grid list)"
  array_to_colour_255 :: "real list grid \<Rightarrow> nat list grid"

subsection \<open>Python and numpy primitives\<close>

text \<open>
  \<^verbatim>\<open>np.random.seed(seed=random_seed)\<close>.  numpy accepts \<^verbatim>\<open>None\<close> or an integer from
  \<open>0\<close> to \<open>2^32 - 1\<close> and raises \<^verbatim>\<open>ValueError\<close> for any other integer.
\<close>

definition np_seed :: "'g lib \<Rightarrow> int option \<Rightarrow> 'g \<Rightarrow> error + 'g" where
  "np_seed L random_seed g =
     (case random_seed of
        None \<Rightarrow> Inr (seed_os L g)
      | Some s \<Rightarrow> if 0 \<le> s \<and> s \<le> 2 ^ 32 - 1 then Inr (seed_int L s) else Inl ValueError)"

text \<open>\<open>n\<close> draws, one after the other, each from the state the one before left.\<close>

fun draw_ints :: "'g lib \<Rightarrow> int \<Rightarrow> int \<Rightarrow> nat \<Rightarrow> 'g \<Rightarrow> int list \<times> 'g" where
  "draw_ints L low high 0 g = ([], g)"
| "draw_ints L low high (Suc n) g =
     (case rng_int L low high g of
        (v, g1) \<Rightarrow> (case draw_ints L low high n g1 of (vs, g2) \<Rightarrow> (v # vs, g2)))"

fun draw_uniforms :: "'g lib \<Rightarrow> real \<Rightarrow> real \<Rightarrow> nat \<Rightarrow> 'g \<Rightarrow> real list \<times> 'g" where
  "draw_uniforms L low high 0 g = ([], g)"
| "draw_uniforms L low high (Suc n) g =
     (case rng_uniform L low high g of
        (v, g1) \<Rightarrow> (case draw_uniforms L low high n g1 of (vs, g2) \<Rightarrow> (v # vs, g2)))"

text \<open>
  \<^verbatim>\<open>np.random.randint(low, high, size=n)\<close>: \<^verbatim>\<open>ValueError\<close> when the range is empty
  (\<open>high \<le> low\<close>) or the size negative.
\<close>

definition randint :: "'g lib \<Rightarrow> int \<Rightarrow> int \<Rightarrow> int \<Rightarrow> 'g \<Rightarrow> error + (int list \<times> 'g)" where
  "randint L low high n g =
     (if n < 0 \<or> high \<le> low then Inl ValueError else Inr (draw_ints L low high (nat n) g))"

text \<open>\<^verbatim>\<open>np.random.randint(low, high)\<close>, one value.\<close>

definition randint1 :: "'g lib \<Rightarrow> int \<Rightarrow> int \<Rightarrow> 'g \<Rightarrow> error + (int \<times> 'g)" where
  "randint1 L low high g = (if high \<le> low then Inl ValueError else Inr (rng_int L low high g))"

text \<open>
  \<^verbatim>\<open>np.random.uniform(low, high, size=n)\<close>; numpy draws for any two bounds.
\<close>

definition uniform :: "'g lib \<Rightarrow> real \<Rightarrow> real \<Rightarrow> int \<Rightarrow> 'g \<Rightarrow> error + (real list \<times> 'g)" where
  "uniform L low high n g =
     (if n < 0 then Inl ValueError else Inr (draw_uniforms L low high (nat n) g))"

text \<open>
  An index into an axis of length \<open>n\<close>: numpy counts a negative index from the end and
  raises \<^verbatim>\<open>IndexError\<close> outside \<open>-n \<dots> n - 1\<close>.
\<close>

definition np_index :: "nat \<Rightarrow> int \<Rightarrow> error + nat" where
  "np_index n i =
     (if 0 \<le> i \<and> i < int n then Inr (nat i)
      else if - int n \<le> i \<and> i < 0 then Inr (nat (i + int n))
      else Inl IndexError)"

text \<open>\<^verbatim>\<open>int(x)\<close> and \<^verbatim>\<open>.astype(int)\<close> on a float: truncation towards zero.\<close>

definition py_trunc :: "real \<Rightarrow> int" where
  "py_trunc x = (if 0 \<le> x then \<lfloor>x\<rfloor> else \<lceil>x\<rceil>)"

text \<open>\<^verbatim>\<open>np.round(x)\<close>: to the nearest integer, a half to the even neighbour.\<close>

definition np_round :: "real \<Rightarrow> int" where
  "np_round x =
     (let f = \<lfloor>x\<rfloor>; d = x - of_int f
      in if d < 1 / 2 then f else if 1 / 2 < d then f + 1 else if even f then f else f + 1)"

text \<open>\<^verbatim>\<open>.astype(np.uint8)\<close> on a float array: the integer part, modulo 256.\<close>

definition uint8 :: "real \<Rightarrow> nat" where
  "uint8 x = nat (py_trunc x mod 256)"

text \<open>\<^verbatim>\<open>np.ones((h, w))\<close> and \<^verbatim>\<open>np.zeros((h, w))\<close> for a shape \<open>(h, w)\<close>.\<close>

definition full :: "nat \<times> nat \<Rightarrow> 'a \<Rightarrow> 'a grid" where
  "full shape v = replicate (fst shape) (replicate (snd shape) v)"

text \<open>
  \<^verbatim>\<open>mask[rows, cols] = 0\<close> with two index arrays: the cell \<open>(r, c)\<close> of each pair
  is set, and an index outside the array raises \<^verbatim>\<open>IndexError\<close>.
\<close>

definition set_cell :: "nat \<times> nat \<Rightarrow> 'a grid \<Rightarrow> int \<times> int \<Rightarrow> 'a \<Rightarrow> error + 'a grid" where
  "set_cell shape a rc v =
     bindE (np_index (fst shape) (fst rc)) (\<lambda>r.
     bindE (np_index (snd shape) (snd rc)) (\<lambda>c.
       Inr (a[r := (a ! r)[c := v]])))"

fun set_cells :: "nat \<times> nat \<Rightarrow> 'a grid \<Rightarrow> (int \<times> int) list \<Rightarrow> 'a \<Rightarrow> error + 'a grid" where
  "set_cells shape a [] v = Inr a"
| "set_cells shape a (rc # rcs) v =
     (case set_cell shape a rc v of Inl e \<Rightarrow> Inl e | Inr a1 \<Rightarrow> set_cells shape a1 rcs v)"

text \<open>\<^verbatim>\<open>np.cumsum\<close>, and \<^verbatim>\<open>np.arange(n)\<close> for a float \<open>n\<close>.\<close>

fun cumsum_from :: "real \<Rightarrow> real list \<Rightarrow> real list" where
  "cumsum_from acc [] = []"
| "cumsum_from acc (x # xs) = (acc + x) # cumsum_from (acc + x) xs"

definition cumsum :: "real list \<Rightarrow> real list" where
  "cumsum xs = cumsum_from 0 xs"

definition arange :: "real \<Rightarrow> real list" where
  "arange n = map real [0 ..< nat \<lceil>n\<rceil>]"

subsection \<open>\<^verbatim>\<open>rand_spline\<close>\<close>

text \<open>
  The arguments \<^verbatim>\<open>startEdge\<close> and \<^verbatim>\<open>endEdge\<close> are a bool or an int.  Python's
  \<^verbatim>\<open>True\<close> equals 1 and \<^verbatim>\<open>False\<close> equals 0, in \<^verbatim>\<open>==\<close> and in
  \<^verbatim>\<open>x in range(a, b)\<close> alike.
\<close>

datatype edge = EBool bool | EInt int

fun edge_int :: "edge \<Rightarrow> int" where
  "edge_int (EBool b) = (if b then 1 else 0)"
| "edge_int (EInt i) = i"

fun is_bool :: "edge \<Rightarrow> bool" where
  "is_bool (EBool b) = True"
| "is_bool (EInt i) = False"

definition eq_True :: "edge \<Rightarrow> bool" where
  "eq_True e = (edge_int e = 1)"

definition in_range :: "edge \<Rightarrow> int \<Rightarrow> int \<Rightarrow> bool" where
  "in_range e a b = (a \<le> edge_int e \<and> edge_int e < b)"

text \<open>
  \<^verbatim>\<open>dim[k]\<close> for \<^verbatim>\<open>dim\<close> = (width, height) and \<open>k\<close> = 0 or 1.  The model writes
  \<open>dm\<close> for the source's \<^verbatim>\<open>dim\<close>.
\<close>

definition dim_at :: "nat \<times> nat \<Rightarrow> int \<Rightarrow> int" where
  "dim_at dm k = (if k = 0 then int (fst dm) else int (snd dm))"

text \<open>\<^verbatim>\<open>inPts[i, k] = v\<close> on the integer array of handle points.\<close>

definition set_coord ::
  "(int \<times> int) list \<Rightarrow> int \<Rightarrow> int \<Rightarrow> int \<Rightarrow> error + (int \<times> int) list" where
  "set_coord pts i k v =
     bindE (np_index (length pts) i) (\<lambda>j.
       Inr (pts[j := (if k = 0 then (v, snd (pts ! j)) else (fst (pts ! j), v))]))"

text \<open>
  The random handle points, lines 45 to 71: the branch \<^verbatim>\<open>if inPts is None\<close>.
  \<^verbatim>\<open>
    inPts = np.concatenate((np.random.randint((dim[0]-1),size=(nPts,1)),
                            np.random.randint((dim[1]-1),size=(nPts,1))), axis=1)
    startEdgeFlag = (startEdge == True) or (startEdge in range(0,4))
    if startEdgeFlag == True:
        if (startEdge in range(0,4)) and (type(startEdge)!=bool):
            edgeNum = startEdge
        else:
            edgeNum = np.random.randint(4)
        LR_v_TB = edgeNum % 2
        LT_V_RB = edgeNum // 2
        inPts[0,LR_v_TB] = LT_V_RB * (dim[LR_v_TB]-1)
    if endEdge == True or (endEdge in range(0,4)) or (endEdge in range(-4,0) and startEdgeFlag):
        if (endEdge in range(0,4)):
            edgeNum = endEdge
        elif(endEdge in range(-4,0) and startEdgeFlag):
            edgeNum = ((endEdge + edgeNum + 4) % 4)
        else:
            edgeNum = np.random.randint(4)
        LR_v_TB = edgeNum % 2
        LT_V_RB = edgeNum // 2
        inPts[nPts-1,LR_v_TB] = LT_V_RB * (dim[LR_v_TB]-1)
  \<close>
  The variable \<^verbatim>\<open>edgeNum\<close> is bound only once a start edge has been chosen; it is
  read in the \<^verbatim>\<open>elif\<close> alone, under \<^verbatim>\<open>startEdgeFlag\<close>.
\<close>

definition start_edge ::
  "'g lib \<Rightarrow> nat \<times> nat \<Rightarrow> edge \<Rightarrow> (int \<times> int) list \<Rightarrow> 'g
     \<Rightarrow> error + ((int \<times> int) list \<times> int option \<times> 'g)" where
  "start_edge L dm startEdge inPts g =
     (let startEdgeFlag = (eq_True startEdge \<or> in_range startEdge 0 4)
      in if startEdgeFlag then
           bindE (if in_range startEdge 0 4 \<and> \<not> is_bool startEdge
                  then Inr (edge_int startEdge, g)
                  else randint1 L 0 4 g) (\<lambda>(edgeNum, g1).
             let LR_v_TB = edgeNum mod 2;
                 LT_V_RB = edgeNum div 2
             in bindE (set_coord inPts 0 LR_v_TB (LT_V_RB * (dim_at dm LR_v_TB - 1))) (\<lambda>pts.
                  Inr (pts, Some edgeNum, g1)))
         else Inr (inPts, None, g))"

definition end_edge ::
  "'g lib \<Rightarrow> nat \<times> nat \<Rightarrow> int \<Rightarrow> edge \<Rightarrow> edge \<Rightarrow> (int \<times> int) list \<Rightarrow> int option \<Rightarrow> 'g
     \<Rightarrow> error + ((int \<times> int) list \<times> 'g)" where
  "end_edge L dm nPts startEdge endEdge inPts edgeNum0 g =
     (let startEdgeFlag = (eq_True startEdge \<or> in_range startEdge 0 4)
      in if eq_True endEdge \<or> in_range endEdge 0 4 \<or> (in_range endEdge (- 4) 0 \<and> startEdgeFlag)
         then
           bindE (if in_range endEdge 0 4 then Inr (edge_int endEdge, g)
                  else if in_range endEdge (- 4) 0 \<and> startEdgeFlag then
                    (case edgeNum0 of
                       None \<Rightarrow> Inl NameError
                     | Some e \<Rightarrow> Inr ((edge_int endEdge + e + 4) mod 4, g))
                  else randint1 L 0 4 g) (\<lambda>(edgeNum, g1).
             let LR_v_TB = edgeNum mod 2;
                 LT_V_RB = edgeNum div 2
             in bindE (set_coord inPts (nPts - 1) LR_v_TB (LT_V_RB * (dim_at dm LR_v_TB - 1)))
                  (\<lambda>pts. Inr (pts, g1)))
         else Inr (inPts, g))"

definition rand_handles ::
  "'g lib \<Rightarrow> nat \<times> nat \<Rightarrow> int \<Rightarrow> edge \<Rightarrow> edge \<Rightarrow> 'g \<Rightarrow> error + ((int \<times> int) list \<times> 'g)" where
  "rand_handles L dm nPts startEdge endEdge g =
     bindE (randint L 0 (int (fst dm) - 1) nPts g) (\<lambda>(xs, g1).
     bindE (randint L 0 (int (snd dm) - 1) nPts g1) (\<lambda>(ys, g2).
     bindE (start_edge L dm startEdge (zip xs ys) g2) (\<lambda>(pts1, edgeNum, g3).
       end_edge L dm nPts startEdge endEdge pts1 edgeNum g3)))"

text \<open>
  The interpolation, lines 78 to 82, on the handle points \<open>inPts\<close>:
  \<^verbatim>\<open>
    distXY = np.sqrt(np.sum(np.diff(inPts,axis=0)**2,axis=1))
    cdXY = np.concatenate((np.zeros((1)),np.cumsum(distXY)),axis=0)
    iDist = np.arange(np.floor(cdXY[-1])+1)
    splXY = interpolate.pchip_interpolate(cdXY,inPts,iDist)
  \<close>
  There is no test on the number of handle points: whatever their number, they reach
  \<^verbatim>\<open>pchip_interpolate\<close>.
\<close>

definition distXY :: "'g lib \<Rightarrow> pt list \<Rightarrow> real list" where
  "distXY L inPts =
     map2 (\<lambda>p q. np_sqrt L ((fst q - fst p)\<^sup>2 + (snd q - snd p)\<^sup>2)) (butlast inPts) (tl inPts)"

definition interpolate_handles :: "'g lib \<Rightarrow> pt list \<Rightarrow> error + pt list" where
  "interpolate_handles L inPts =
     (let cdXY = 0 # cumsum (distXY L inPts);
          iDist = arange (of_int \<lfloor>last cdXY\<rfloor> + 1)
      in pchip_interpolate L cdXY inPts iDist)"

text \<open>
  \<^verbatim>\<open>rand_spline(dim, inPts = None, nPts = 5, random_seed = None, startEdge = True,
  endEdge = True)\<close>.  With \<^verbatim>\<open>inPts\<close> given, \<^verbatim>\<open>nPts\<close> and both edge arguments are
  not read.
\<close>

definition rand_spline ::
  "'g lib \<Rightarrow> nat \<times> nat \<Rightarrow> pt list option \<Rightarrow> int \<Rightarrow> int option \<Rightarrow> edge \<Rightarrow> edge \<Rightarrow> 'g
     \<Rightarrow> error + (pt list \<times> 'g)" where
  "rand_spline L dm inPts nPts random_seed startEdge endEdge g =
     bindE (np_seed L random_seed g) (\<lambda>g0.
     bindE (case inPts of
              None \<Rightarrow>
                bindE (rand_handles L dm nPts startEdge endEdge g0) (\<lambda>(pts, g1).
                  Inr (map (\<lambda>(x, y). (real_of_int x, real_of_int y)) pts, g1))
            | Some pts \<Rightarrow> Inr (pts, g0)) (\<lambda>(pts, g1).
     bindE (interpolate_handles L pts) (\<lambda>splXY. Inr (splXY, g1))))"

subsection \<open>The mask of a path\<close>

text \<open>
  Three functions turn the sampled path into a raster of ones with a zero at each point
  of the path:
  \<^verbatim>\<open>
    mask = np.ones(invDim)
    mask[(np.round(sampSpl[:,1])).astype(int),np.round(sampSpl[:,0]).astype(int)] = 0   # add_marker
    mask[(sampSpl[:,1].astype(int)),sampSpl[:,0].astype(int)] = 0       # add_fold, add_sectioning
  \<close>
  The coordinates are rounded or truncated and then used as indices as they are.
\<close>

definition mask_round :: "nat \<times> nat \<Rightarrow> pt list \<Rightarrow> error + real grid" where
  "mask_round invDim sampSpl =
     set_cells invDim (full invDim 1) (map (\<lambda>(x, y). (np_round y, np_round x)) sampSpl) 0"

definition mask_astype :: "nat \<times> nat \<Rightarrow> pt list \<Rightarrow> error + real grid" where
  "mask_astype invDim sampSpl =
     set_cells invDim (full invDim 1) (map (\<lambda>(x, y). (py_trunc y, py_trunc x)) sampSpl) 0"

text \<open>\<^verbatim>\<open>bwDist <= width/2\<close>, cell by cell.\<close>

definition threshold :: "real grid \<Rightarrow> real \<Rightarrow> bool grid" where
  "threshold bwDist t = map (map (\<lambda>d. d \<le> t)) bwDist"

text \<open>
  One region lies within another: the two rasters have the same shape, and every cell
  inside the first is inside the second.
\<close>

definition region_le :: "bool grid \<Rightarrow> bool grid \<Rightarrow> bool" where
  "region_le reg1 reg2 = list_all2 (list_all2 (\<lambda>a b. a \<longrightarrow> b)) reg1 reg2"

text \<open>The values of a flat draw as an array of shape \<open>(h, w)\<close>, row by row.\<close>

fun reshape :: "nat \<Rightarrow> nat \<Rightarrow> 'a list \<Rightarrow> 'a grid" where
  "reshape 0 w xs = []"
| "reshape (Suc h) w xs = take w xs # reshape h w (drop w xs)"

text \<open>
  The jittered edge of \<^verbatim>\<open>add_fold\<close> and \<^verbatim>\<open>add_sectioning\<close>:
  \<^verbatim>\<open>
    distRand = np.random.randint(-int(width/k),int(width/k),size=invDim)
    bwDist = blur(bwDist+distRand,(5,5))
  \<close>
  with \<open>k = 4\<close> in \<^verbatim>\<open>add_fold\<close> and \<open>k = 2\<close> in \<^verbatim>\<open>add_sectioning\<close>.  The bounds of
  the noise are taken from \<^verbatim>\<open>width\<close>.
\<close>

definition rand_edge ::
  "'g lib \<Rightarrow> nat \<times> nat \<Rightarrow> real \<Rightarrow> real \<Rightarrow> real grid \<Rightarrow> 'g \<Rightarrow> error + (real grid \<times> 'g)" where
  "rand_edge L invDim width k bwDist g =
     bindE (randint L (- py_trunc (width / k)) (py_trunc (width / k))
              (int (fst invDim * snd invDim)) g) (\<lambda>(vs, g1).
       let distRand = reshape (fst invDim) (snd invDim) vs
       in bindE (cv_blur L (map2 (map2 (\<lambda>d n. d + real_of_int n)) bwDist distRand) (5, 5))
            (\<lambda>b. Inr (b, g1)))"

subsection \<open>\<^verbatim>\<open>add_marker\<close>\<close>

text \<open>
  \<^verbatim>\<open>
    rgbVal = np.zeros((3,1))
    for i in range(3):
        rgbVal[i] = np.random.randint(rgbRange[i,0],rgbRange[i,1])
    rgbVal = rgbVal.flatten()
  \<close>
\<close>

fun draw_rgbVal ::
  "'g lib \<Rightarrow> (int \<times> int) list \<Rightarrow> int list \<Rightarrow> 'g \<Rightarrow> error + (real list \<times> 'g)" where
  "draw_rgbVal L rgbRange [] g = Inr ([], g)"
| "draw_rgbVal L rgbRange (i # is) g =
     (case np_index (length rgbRange) i of
        Inl e \<Rightarrow> Inl e
      | Inr j \<Rightarrow>
          (case randint1 L (fst (rgbRange ! j)) (snd (rgbRange ! j)) g of
             Inl e \<Rightarrow> Inl e
           | Inr (v, g1) \<Rightarrow>
               (case draw_rgbVal L rgbRange is g1 of
                  Inl e \<Rightarrow> Inl e
                | Inr (vs, g2) \<Rightarrow> Inr (real_of_int v # vs, g2))))"

text \<open>
  \<^verbatim>\<open>
    color_arr = np.zeros((invDim[0],invDim[1],3),dtype=np.uint8)
    for i in range(len(rgbVal)):
        color_arr[:,:,i] = rgbVal[i]
  \<close>
\<close>

definition color_array :: "nat \<times> nat \<Rightarrow> real list \<Rightarrow> error + nat list grid" where
  "color_array invDim rgbVal =
     (if 3 < length rgbVal then Inl IndexError
      else Inr (full invDim (map uint8 rgbVal @ replicate (3 - length rgbVal) 0)))"

text \<open>
  The choice of the path in \<^verbatim>\<open>add_marker\<close>, lines 198 to 202:
  \<^verbatim>\<open>
    if sampSpl is None:
        if inPts is None:
            sampSpl = rand_spline(dim, nPts = nPts,random_seed = random_seed)
        else:
            sampSpl = rand_spline(dim, inPts = inPts,random_seed = random_seed)
  \<close>
  The defaults of \<^verbatim>\<open>rand_spline\<close> that a call leaves out are written out:
  \<^verbatim>\<open>nPts = 5\<close>, \<^verbatim>\<open>startEdge = True\<close>, \<^verbatim>\<open>endEdge = True\<close>.
\<close>

definition add_marker_sampSpl ::
  "'g lib \<Rightarrow> nat \<times> nat \<Rightarrow> pt list option \<Rightarrow> pt list option \<Rightarrow> int \<Rightarrow> int option \<Rightarrow> 'g
     \<Rightarrow> error + (pt list \<times> 'g)" where
  "add_marker_sampSpl L dm sampSpl inPts nPts random_seed g =
     (case sampSpl of
        None \<Rightarrow>
          (case inPts of
             None \<Rightarrow> rand_spline L dm None nPts random_seed (EBool True) (EBool True) g
           | Some pts \<Rightarrow> rand_spline L dm (Some pts) 5 random_seed (EBool True) (EBool True) g)
      | Some spl \<Rightarrow> Inr (spl, g))"

text \<open>
  \<^verbatim>\<open>add_marker\<close> up to the thresholded region \<^verbatim>\<open>bwReg\<close>, lines 189 to 210.
\<close>

definition add_marker_bwReg ::
  "'g lib \<Rightarrow> image \<Rightarrow> int option \<Rightarrow> int \<Rightarrow> pt list option \<Rightarrow> pt list option \<Rightarrow> real
     \<Rightarrow> real list option \<Rightarrow> (int \<times> int) list \<Rightarrow> 'g
     \<Rightarrow> error + (bool grid \<times> real list \<times> 'g)" where
  "add_marker_bwReg L inputIm random_seed nPts sampSpl inPts width rgbVal rgbRange g =
     bindE (np_seed L random_seed g) (\<lambda>g0.
     bindE (case rgbVal of
              None \<Rightarrow> draw_rgbVal L rgbRange [0, 1, 2] g0
            | Some v \<Rightarrow> Inr (v, g0)) (\<lambda>(rgbVal1, g1).
       let dm = im_size inputIm;
           invDim = (snd dm, fst dm)
       in
     bindE (add_marker_sampSpl L dm sampSpl inPts nPts random_seed g1) (\<lambda>(sampSpl1, g2).
     bindE (mask_round invDim sampSpl1) (\<lambda>mask.
       let bwDist = distance_transform_edt L mask;
           bwReg = threshold bwDist (width / 2)
       in Inr (bwReg, rgbVal1, g2)))))"

text \<open>
  \<^verbatim>\<open>add_marker(inputIm, random_seed = None, nPts = 3, sampSpl = None, inPts = None,
  width = 100, alpha = .75, rgbVal = None, rgbRange = ...)\<close>: the region, then the
  coloured layer composited through the alpha mask, lines 211 to 221.
\<close>

definition add_marker ::
  "'g lib \<Rightarrow> image \<Rightarrow> int option \<Rightarrow> int \<Rightarrow> pt list option \<Rightarrow> pt list option \<Rightarrow> real \<Rightarrow> real
     \<Rightarrow> real list option \<Rightarrow> (int \<times> int) list \<Rightarrow> 'g \<Rightarrow> error + (image \<times> 'g)" where
  "add_marker L inputIm random_seed nPts sampSpl inPts width alpha rgbVal rgbRange g =
     bindE (add_marker_bwReg L inputIm random_seed nPts sampSpl inPts width rgbVal rgbRange g)
       (\<lambda>(bwReg, rgbVal1, g1).
          let invDim = (snd (im_size inputIm), fst (im_size inputIm));
              im_rgba = convert L inputIm ModeRGBA;
              alpha_mask =
                fromarray (map (map (\<lambda>b. [uint8 ((if b then 1 else 0) * alpha * 255)])) bwReg)
                  ModeL
          in bindE (color_array invDim rgbVal1) (\<lambda>color_arr.
               let color_layer = fromarray color_arr ModeRGB
               in bindE (composite L color_layer im_rgba alpha_mask) (\<lambda>comp_im.
                    Inr (convert L comp_im ModeRGB, g1))))"

subsection \<open>\<^verbatim>\<open>add_fold\<close>\<close>

text \<open>
  \<^verbatim>\<open>np.amin(sampSpl,axis=0)\<close> and \<^verbatim>\<open>np.amax(sampSpl,axis=0)\<close>: the corners of the
  bounding box of the path.  numpy raises \<^verbatim>\<open>ValueError\<close> on an array with no rows.
\<close>

definition bounding_box :: "pt list \<Rightarrow> error + (pt \<times> pt)" where
  "bounding_box sampSpl =
     (case sampSpl of
        [] \<Rightarrow> Inl ValueError
      | p # ps \<Rightarrow>
          Inr ((fold min (map fst ps) (fst p), fold min (map snd ps) (snd p)),
               (fold max (map fst ps) (fst p), fold max (map snd ps) (snd p))))"

text \<open>Row \<open>k\<close> (0 or 1) of a 2 by 2 box.\<close>

definition box_row :: "pt \<times> pt \<Rightarrow> nat \<Rightarrow> pt" where
  "box_row box k = (if k = 0 then fst box else snd box)"

text \<open>
  The four corner correspondences, lines 313 to 319:
  \<^verbatim>\<open>
    for di in range(sampSplBBPts.shape[0]):
        LR_v_TB = di % 2
        LT_V_RB = di // 2
        sampSplBBPts[di,0] = sampSplBBox[LR_v_TB,0]
        sampSplBBPts[di,1] = sampSplBBox[LT_V_RB,1]
        outBBPts[di,0] = rsSplBBox[LR_v_TB,0] + pad_szXY[0] + shiftXY[0] + randShiftX[di]
        outBBPts[di,1] = rsSplBBox[LT_V_RB,1] + pad_szXY[1] + shiftXY[1] + randShiftY[di]
  \<close>
\<close>

definition sampSplBBPts :: "pt \<times> pt \<Rightarrow> pt list" where
  "sampSplBBPts sampSplBBox =
     map (\<lambda>di. (fst (box_row sampSplBBox (di mod 2)), snd (box_row sampSplBBox (di div 2))))
       [0, 1, 2, 3]"

definition outBBPts ::
  "pt \<times> pt \<Rightarrow> nat \<times> nat \<Rightarrow> int \<times> int \<Rightarrow> int list \<Rightarrow> int list \<Rightarrow> pt list" where
  "outBBPts rsSplBBox pad_szXY shiftXY randShiftX randShiftY =
     map (\<lambda>di.
            (fst (box_row rsSplBBox (di mod 2)) + real (fst pad_szXY)
               + real_of_int (fst shiftXY) + real_of_int (randShiftX ! di),
             snd (box_row rsSplBBox (di div 2)) + real (snd pad_szXY)
               + real_of_int (snd shiftXY) + real_of_int (randShiftY ! di)))
       [0, 1, 2, 3]"

text \<open>
  The choice of the path in \<^verbatim>\<open>add_fold\<close>, lines 273 to 277:
  \<^verbatim>\<open>
    if sampSpl is None:
        if inPts is None:
            sampSpl = rand_spline(dim, nPts = nPts,random_seed = random_seed, endEdge = endEdge)
        else:
            sampSpl = rand_spline(dim, inPts = inPts,random_seed = random_seed)
  \<close>
\<close>

definition add_fold_sampSpl ::
  "'g lib \<Rightarrow> nat \<times> nat \<Rightarrow> pt list option \<Rightarrow> pt list option \<Rightarrow> int \<Rightarrow> edge \<Rightarrow> int option \<Rightarrow> 'g
     \<Rightarrow> error + (pt list \<times> 'g)" where
  "add_fold_sampSpl L dm sampSpl inPts nPts endEdge random_seed g =
     (case sampSpl of
        None \<Rightarrow>
          (case inPts of
             None \<Rightarrow> rand_spline L dm None nPts random_seed (EBool True) endEdge g
           | Some pts \<Rightarrow> rand_spline L dm (Some pts) 5 random_seed (EBool True) (EBool True) g)
      | Some spl \<Rightarrow> Inr (spl, g))"

text \<open>
  The perspective transform of one layer, lines 295 to 322: the bounding box of the path,
  the box to sample from, the random shifts of its corners
  \<^verbatim>\<open>
    randShiftX = np.random.randint(-int(rsSplBBSz[0,0]/4),int(rsSplBBSz[0,0]/4),size=(4,1))
    randShiftY = np.random.randint(-int(rsSplBBSz[0,1]/4),int(rsSplBBSz[0,1]/4),size=(4,1))
  \<close>
  and \<^verbatim>\<open>M = getPerspectiveTransform(outBBPts,sampSplBBPts)\<close>.
\<close>

definition fold_transform ::
  "'g lib \<Rightarrow> nat \<times> nat \<Rightarrow> pt list \<Rightarrow> real \<times> real \<Rightarrow> int \<times> int \<Rightarrow> 'g
     \<Rightarrow> error + (real grid \<times> 'g)" where
  "fold_transform L dm sampSpl scaleXY shiftXY g =
     (let pad_szXY = (max (fst dm) (snd dm), max (fst dm) (snd dm))
      in
     bindE (bounding_box sampSpl) (\<lambda>sampSplBBox.
       let mn = fst sampSplBBox;
           mx = snd sampSplBBox;
           sampSplBBSz = (fst mx - fst mn, snd mx - snd mn);
           mean = ((fst mn + fst mx) / 2, (snd mn + snd mx) / 2);
           half = (fst sampSplBBSz / 2 * fst scaleXY, snd sampSplBBSz / 2 * snd scaleXY);
           rsSplBBox = ((fst mean - fst half, snd mean - snd half),
                        (fst mean + fst half, snd mean + snd half));
           rsSplBBSz = (fst (snd rsSplBBox) - fst (fst rsSplBBox),
                        snd (snd rsSplBBox) - snd (fst rsSplBBox))
       in
     bindE (randint L (- py_trunc (fst rsSplBBSz / 4)) (py_trunc (fst rsSplBBSz / 4)) 4 g)
       (\<lambda>(randShiftX, g1).
     bindE (randint L (- py_trunc (snd rsSplBBSz / 4)) (py_trunc (snd rsSplBBSz / 4)) 4 g1)
       (\<lambda>(randShiftY, g2).
     bindE (getPerspectiveTransform L
              (outBBPts rsSplBBox pad_szXY shiftXY randShiftX randShiftY)
              (sampSplBBPts sampSplBBox)) (\<lambda>M. Inr (M, g2))))))"

text \<open>
  The region of one layer, lines 327 to 336:
  \<^verbatim>\<open>
    mask = np.ones(invDim)
    mask[(sampSpl[:,1].astype(int)),sampSpl[:,0].astype(int)] = 0
    bwDist = morphology.distance_transform_edt(mask)
    if randEdge == True:
        distRand = np.random.randint(-int(width/4),int(width/4),size=invDim)
        bwDist = blur(bwDist+distRand,(5,5))
    bwReg = bwDist <= width/2
  \<close>
\<close>

definition fold_bwReg ::
  "'g lib \<Rightarrow> nat \<times> nat \<Rightarrow> pt list \<Rightarrow> real \<Rightarrow> bool \<Rightarrow> 'g \<Rightarrow> error + (bool grid \<times> 'g)" where
  "fold_bwReg L invDim sampSpl width randEdge g =
     bindE (mask_astype invDim sampSpl) (\<lambda>mask.
     bindE (if randEdge
            then rand_edge L invDim width 4 (distance_transform_edt L mask) g
            else Inr (distance_transform_edt L mask, g)) (\<lambda>(bwDist, g1).
       Inr (threshold bwDist (width / 2), g1)))"

text \<open>
  The multiplicative composite of one layer, lines 340 to 345:
  \<^verbatim>\<open>
    unit_dst_arr = np.ones(warp_im.shape)
    for i in range(warp_im.shape[2]):
        unit_dst_arr[:,:,i] = np.where(bwReg,warp_im[:,:,i]/255,1)
    unit_dst_arr = GaussianBlur(unit_dst_arr,sampBlur,0)
    comp_arr = unit_dst_arr * im_arr
    comp_im = Image.fromarray(comp_arr.astype(np.uint8),'RGB')
  \<close>
\<close>

definition fold_composite ::
  "'g lib \<Rightarrow> nat list grid \<Rightarrow> bool grid \<Rightarrow> nat list grid \<Rightarrow> int \<times> int \<Rightarrow> error + image" where
  "fold_composite L warp_im bwReg im_arr sampBlur =
     (let unit_dst_arr =
            map2 (map2 (\<lambda>b px. map (\<lambda>v. if b then real v / 255 else 1) px)) bwReg warp_im
      in
     bindE (GaussianBlur L unit_dst_arr sampBlur) (\<lambda>unit_dst_arr1.
       let comp_arr = map2 (map2 (map2 (\<lambda>u v. u * real v))) unit_dst_arr1 im_arr
       in Inr (fromarray (map (map (map uint8)) comp_arr) ModeRGB)))"

text \<open>
  One layer of the fold, lines 269 to 345: everything between the guard on
  \<^verbatim>\<open>nLayers\<close> and the recursive call.  It returns the composite image together with
  the sample array and the path, which the recursive call is given.
  \<^verbatim>\<open>
    if sampShiftXY is None: # randomly initialized if empty
        shiftXY = np.random.randint(-int(dim[0]/2),int(dim[0]/2),size=(2,1))
    else:
        shiftXY = sampShiftXY
    pad_szXY = (max(dim),max(dim),0)
    sampBlur = (((width//40)*2)+1,((width//40)*2)+1) # has to be odd kernel
  \<close>
\<close>

definition fold_layer ::
  "'g lib \<Rightarrow> image \<Rightarrow> nat list grid option \<Rightarrow> pt list option \<Rightarrow> pt list option \<Rightarrow> int option
     \<Rightarrow> real \<times> real \<Rightarrow> real \<Rightarrow> (int \<times> int) option \<Rightarrow> bool \<Rightarrow> int \<Rightarrow> edge \<Rightarrow> 'g
     \<Rightarrow> error + (image \<times> nat list grid \<times> pt list \<times> 'g)" where
  "fold_layer L inputIm sampArr sampSpl inPts random_seed scaleXY width sampShiftXY randEdge
       nPts endEdge g =
     (let im_arr = im_data inputIm;
          dm = im_size inputIm;
          invDim = (snd dm, fst dm)
      in
     bindE (add_fold_sampSpl L dm sampSpl inPts nPts endEdge random_seed g) (\<lambda>(sampSpl1, g1).
       let sampArr1 = (case sampArr of None \<Rightarrow> im_arr | Some a \<Rightarrow> a)
       in
     bindE (case sampShiftXY of
              None \<Rightarrow>
                bindE (randint L (- (int (fst dm) div 2)) (int (fst dm) div 2) 2 g1)
                  (\<lambda>(vs, g2). Inr ((vs ! 0, vs ! 1), g2))
            | Some sh \<Rightarrow> Inr (sh, g1)) (\<lambda>(shiftXY, g2).
       let pad_szXY = (max (fst dm) (snd dm), max (fst dm) (snd dm));
           sampBlur = (\<lfloor>width / 40\<rfloor> * 2 + 1, \<lfloor>width / 40\<rfloor> * 2 + 1);
           sampPadArr = pad_symmetric L sampArr1 (snd pad_szXY, fst pad_szXY)
       in
     bindE (fold_transform L dm sampSpl1 scaleXY shiftXY g2) (\<lambda>(M, g3).
     bindE (warpPerspective L sampPadArr M dm) (\<lambda>warp_im.
     bindE (fold_bwReg L invDim sampSpl1 width randEdge g3) (\<lambda>(bwReg, g4).
     bindE (fold_composite L warp_im bwReg im_arr sampBlur) (\<lambda>comp_im.
       Inr (comp_im, sampArr1, sampSpl1, g4))))))))"

text \<open>
  \<^verbatim>\<open>add_fold(inputIm, sampArr = None, sampSpl = None, inPts = None, random_seed = None,
  scaleXY = [1,1], width = 200, sampShiftXY = None, randEdge = False, nLayers = 2, nPts = 3,
  endEdge = -2)\<close>:
  \<^verbatim>\<open>
    np.random.seed(seed=random_seed)
    if nLayers < 1: # if someone handed in an invalid # of layers, return back the original image
        return inputIm
    ...
    if nLayers > 1: # recursive addition
        comp_im = add_fold(comp_im,sampArr=sampArr, sampSpl=sampSpl,inPts=inPts,
                 random_seed = random_seed+1,
                 scaleXY=scaleXY,width=width,sampShiftXY=sampShiftXY,randEdge=randEdge,
                 nLayers=nLayers-1)
    return comp_im
  \<close>
  The generator is seeded before the guard.  The argument \<^verbatim>\<open>random_seed+1\<close> is
  evaluated before the call: with \<^verbatim>\<open>random_seed\<close> \<^verbatim>\<open>None\<close> it raises
  \<^verbatim>\<open>TypeError\<close>.  The recursive call leaves \<^verbatim>\<open>nPts\<close> and \<^verbatim>\<open>endEdge\<close> at their
  defaults, 3 and -2.
\<close>

function add_fold ::
  "'g lib \<Rightarrow> image \<Rightarrow> nat list grid option \<Rightarrow> pt list option \<Rightarrow> pt list option \<Rightarrow> int option
     \<Rightarrow> real \<times> real \<Rightarrow> real \<Rightarrow> (int \<times> int) option \<Rightarrow> bool \<Rightarrow> int \<Rightarrow> int \<Rightarrow> edge \<Rightarrow> 'g
     \<Rightarrow> error + (image \<times> 'g)" where
  "add_fold L inputIm sampArr sampSpl inPts random_seed scaleXY width sampShiftXY randEdge
       nLayers nPts endEdge g =
     (case np_seed L random_seed g of
        Inl e \<Rightarrow> Inl e
      | Inr g0 \<Rightarrow>
          if nLayers < 1 then Inr (inputIm, g0)
          else
            (case fold_layer L inputIm sampArr sampSpl inPts random_seed scaleXY width
                    sampShiftXY randEdge nPts endEdge g0 of
               Inl e \<Rightarrow> Inl e
             | Inr (comp_im, sampArr1, sampSpl1, g1) \<Rightarrow>
                 if 1 < nLayers then
                   (case random_seed of
                      None \<Rightarrow> Inl TypeError
                    | Some s \<Rightarrow>
                        add_fold L comp_im (Some sampArr1) (Some sampSpl1) inPts (Some (s + 1))
                          scaleXY width sampShiftXY randEdge (nLayers - 1) 3 (EInt (- 2)) g1)
                 else Inr (comp_im, g1)))"
  by pat_completeness auto
termination
  by (relation "measure (\<lambda>(L, inputIm, sampArr, sampSpl, inPts, random_seed, scaleXY, width,
        sampShiftXY, randEdge, nLayers, nPts, endEdge, g). nat nLayers)") auto

declare add_fold.simps [simp del]

subsection \<open>\<^verbatim>\<open>add_sectioning\<close>\<close>

text \<open>
  The choice of the path in \<^verbatim>\<open>add_sectioning\<close>, lines 395 to 399:
  \<^verbatim>\<open>
    if sampSpl is None:
        if inPts is None:
            sampSpl = rand_spline(dim, inPts = inPts,random_seed = random_seed)
        else:
            sampSpl = rand_spline(dim, nPts = nPts, endEdge = endEdge, random_seed = random_seed)
  \<close>
  The first call passes \<^verbatim>\<open>inPts\<close>, which is \<^verbatim>\<open>None\<close> there, and leaves
  \<^verbatim>\<open>nPts\<close> and \<^verbatim>\<open>endEdge\<close> at the defaults of \<^verbatim>\<open>rand_spline\<close>; the second
  call is made when \<^verbatim>\<open>inPts\<close> is given and does not pass it.
\<close>

definition add_sectioning_sampSpl ::
  "'g lib \<Rightarrow> nat \<times> nat \<Rightarrow> pt list option \<Rightarrow> pt list option \<Rightarrow> int \<Rightarrow> edge \<Rightarrow> int option \<Rightarrow> 'g
     \<Rightarrow> error + (pt list \<times> 'g)" where
  "add_sectioning_sampSpl L dm sampSpl inPts nPts endEdge random_seed g =
     (case sampSpl of
        None \<Rightarrow>
          (case inPts of
             None \<Rightarrow> rand_spline L dm inPts 5 random_seed (EBool True) (EBool True) g
           | Some pts \<Rightarrow> rand_spline L dm None nPts random_seed (EBool True) endEdge g)
      | Some spl \<Rightarrow> Inr (spl, g))"

text \<open>
  \<^verbatim>\<open>add_sectioning\<close> up to the thresholded region \<^verbatim>\<open>bw_reg\<close>, lines 391 to 409.
  It returns the distance map as well, which the rest of the function scales.
\<close>

definition add_sectioning_bw_reg ::
  "'g lib \<Rightarrow> image \<Rightarrow> real \<Rightarrow> int option \<Rightarrow> bool \<Rightarrow> pt list option \<Rightarrow> pt list option \<Rightarrow> int
     \<Rightarrow> edge \<Rightarrow> 'g \<Rightarrow> error + (real grid \<times> bool grid \<times> 'g)" where
  "add_sectioning_bw_reg L inputIm width random_seed randEdge sampSpl inPts nPts endEdge g =
     bindE (np_seed L random_seed g) (\<lambda>g0.
       let dm = im_size inputIm;
           invDim = (snd dm, fst dm)
       in
     bindE (add_sectioning_sampSpl L dm sampSpl inPts nPts endEdge random_seed g0)
       (\<lambda>(sampSpl1, g1).
     bindE (mask_astype invDim sampSpl1) (\<lambda>mask.
     bindE (if randEdge
            then rand_edge L invDim width 2 (distance_transform_edt L mask) g1
            else Inr (distance_transform_edt L mask, g1)) (\<lambda>(bw_dist, g2).
       Inr (bw_dist, threshold bw_dist (width / 2), g2)))))"

text \<open>\<^verbatim>\<open>np.interp(x, [0, 1], [a, b])\<close>: linear between the two knots, constant outside.\<close>

definition interp01 :: "real \<Rightarrow> real \<Rightarrow> real \<Rightarrow> real" where
  "interp01 x a b = (if x \<le> 0 then a else if 1 \<le> x then b else a + (b - a) * x)"

text \<open>
  The saturation and value channels of one HSV pixel under the factor \<open>f\<close>:
  \<^verbatim>\<open>
    imHSV_arr[:,:,1] = np.minimum(255,np.multiply(imHSV_arr[:,:,1],nDistRng))
    imHSV_arr[:,:,2] = np.minimum(255,np.divide(imHSV_arr[:,:,2],(nDistRng+1)/2))
  \<close>
\<close>

definition section_pixel :: "nat list \<Rightarrow> real \<Rightarrow> nat list" where
  "section_pixel px f =
     px[1 := uint8 (min 255 (real (px ! 1) * f)),
        2 := uint8 (min 255 (real (px ! 2) / ((f + 1) / 2)))]"

text \<open>
  \<^verbatim>\<open>add_sectioning(inputIm, width = 240, random_seed = None, scaleMin = .5, scaleMax = .8,
  randEdge = True, sampSpl = None, inPts = None, nPts = 2, endEdge = -2)\<close>.
\<close>

definition add_sectioning ::
  "'g lib \<Rightarrow> image \<Rightarrow> real \<Rightarrow> int option \<Rightarrow> real \<Rightarrow> real \<Rightarrow> bool \<Rightarrow> pt list option
     \<Rightarrow> pt list option \<Rightarrow> int \<Rightarrow> edge \<Rightarrow> 'g \<Rightarrow> error + (image \<times> 'g)" where
  "add_sectioning L inputIm width random_seed scaleMin scaleMax randEdge sampSpl inPts nPts
       endEdge g =
     bindE (add_sectioning_bw_reg L inputIm width random_seed randEdge sampSpl inPts nPts
              endEdge g) (\<lambda>(bw_dist, bw_reg, g1).
       let halfScale = (scaleMin + scaleMax) / 2
       in
     bindE (uniform L scaleMin ((halfScale + scaleMin) / 2) 1 g1) (\<lambda>(scaleRandMin, g2).
     bindE (uniform L ((halfScale + scaleMax) / 2) scaleMax 1 g2) (\<lambda>(scaleRandMax, g3).
       let nDistRng =
             map2 (map2 (\<lambda>d b. if b then interp01 (d / (width / 2)) (scaleRandMin ! 0)
                                           (scaleRandMax ! 0)
                                 else 1)) bw_dist bw_reg;
           imHSV = convert L inputIm ModeHSV;
           imHSV_arr = map2 (map2 section_pixel) (im_data imHSV) nDistRng;
           imSatHSV = fromarray imHSV_arr ModeHSV
       in Inr (convert L imSatHSV ModeRGB, g3))))"

subsection \<open>A small instance of the libraries\<close>

text \<open>
  The theorems below hold for every library record.  To run the model on a concrete input
  a concrete record is needed, and \<open>demo_lib\<close> is one: small, executable stand-ins with
  the failure conditions of the real functions.
  \<^item> The generator state is a number below 64 that a linear congruence steps; an integer
    draw is \<open>low + g mod (high - low)\<close>.  It is not numpy's Mersenne Twister.
  \<^item> \<open>demo_pchip\<close> raises \<^verbatim>\<open>ValueError\<close> for fewer than two knots, as scipy's
    \<^verbatim>\<open>pchip_interpolate\<close> does, and interpolates linearly otherwise.
  \<^item> \<open>demo_sqrt\<close> is the integer square root, exact on the squares of integers, and
    \<open>demo_edt\<close> is the Euclidean distance to the nearest zero cell taken with it.
  \<^item> \<open>demo_blur\<close> is the normalised box filter with OpenCV's default border
    (reflection without repeating the edge cell).
  \<^item> \<open>demo_composite\<close> raises \<^verbatim>\<open>ValueError\<close> for images of different sizes, as
    PIL does, and blends by the mask otherwise.
  \<^item> The remaining fields are the simplest functions of the right type.
\<close>

fun demo_linear :: "real list \<Rightarrow> pt list \<Rightarrow> real \<Rightarrow> pt" where
  "demo_linear (x0 # x1 # xs) (p0 # p1 # ps) t =
     (if t \<le> x1 \<or> xs = [] then
        (let r = (t - x0) / (x1 - x0)
         in (fst p0 + r * (fst p1 - fst p0), snd p0 + r * (snd p1 - snd p0)))
      else demo_linear (x1 # xs) (p1 # ps) t)"
| "demo_linear xs ps t = (0, 0)"

definition demo_pchip :: "real list \<Rightarrow> pt list \<Rightarrow> real list \<Rightarrow> error + pt list" where
  "demo_pchip xi yi x =
     (if length xi < 2 \<or> length xi \<noteq> length yi then Inl ValueError
      else Inr (map (demo_linear xi yi) x))"

definition zero_cells :: "real grid \<Rightarrow> (nat \<times> nat) list" where
  "zero_cells a =
     concat (map (\<lambda>r. map (\<lambda>c. (r, c)) (filter (\<lambda>c. a ! r ! c = 0) [0 ..< length (a ! r)]))
               [0 ..< length a])"

definition sq_dist :: "nat \<times> nat \<Rightarrow> nat \<times> nat \<Rightarrow> nat" where
  "sq_dist p q =
     (nat \<bar>int (fst p) - int (fst q)\<bar>)\<^sup>2 + (nat \<bar>int (snd p) - int (snd q)\<bar>)\<^sup>2"

fun isqrt_below :: "nat \<Rightarrow> nat \<Rightarrow> nat" where
  "isqrt_below 0 n = 0"
| "isqrt_below (Suc k) n = (if Suc k * Suc k \<le> n then Suc k else isqrt_below k n)"

definition demo_sqrt :: "real \<Rightarrow> real" where
  "demo_sqrt x = real (isqrt_below (nat \<lfloor>x\<rfloor>) (nat \<lfloor>x\<rfloor>))"

definition demo_edt :: "real grid \<Rightarrow> real grid" where
  "demo_edt a =
     map (\<lambda>r. map (\<lambda>c. (case zero_cells a of
                            [] \<Rightarrow> 0
                          | z # zs \<Rightarrow> demo_sqrt (real (fold min (map (sq_dist (r, c)) zs)
                                                    (sq_dist (r, c) z)))))
                 [0 ..< length (a ! r)])
       [0 ..< length a]"

definition reflect101 :: "nat \<Rightarrow> int \<Rightarrow> nat" where
  "reflect101 n i =
     (if n \<le> 1 then 0
      else let k = \<bar>i\<bar> mod (2 * int n - 2)
           in if k < int n then nat k else nat (2 * int n - 2 - k))"

definition demo_blur :: "real grid \<Rightarrow> nat \<times> nat \<Rightarrow> error + real grid" where
  "demo_blur a ksize =
     (if fst ksize = 0 \<or> snd ksize = 0 then Inl ValueError
      else
        Inr (map (\<lambda>r. map (\<lambda>c.
                    (\<Sum>dr \<leftarrow> [0 ..< snd ksize]. \<Sum>dc \<leftarrow> [0 ..< fst ksize].
                        a ! reflect101 (length a) (int r + int dr - int (snd ksize div 2))
                          ! reflect101 (length (a ! r)) (int c + int dc - int (fst ksize div 2)))
                      / real (fst ksize * snd ksize))
                  [0 ..< length (a ! r)])
               [0 ..< length a]))"

definition demo_convert :: "image \<Rightarrow> mode \<Rightarrow> image" where
  "demo_convert im m =
     im\<lparr>im_mode := m,
        im_data := map (map (\<lambda>px. if m = ModeRGBA then take 3 px @ [255]
                                    else if m = ModeRGB then take 3 px
                                    else px)) (im_data im)\<rparr>"

definition demo_composite :: "image \<Rightarrow> image \<Rightarrow> image \<Rightarrow> error + image" where
  "demo_composite image1 image2 maskIm =
     (if im_size image1 \<noteq> im_size image2 \<or> im_size image1 \<noteq> im_size maskIm then Inl ValueError
      else
        Inr (image2\<lparr>im_data :=
               map2 (\<lambda>(r1, r2) rm.
                       map2 (\<lambda>(p1, p2) pm.
                               map2 (\<lambda>c1 c2. (c1 * hd pm + c2 * (255 - hd pm)) div 255)
                                 (p1 @ [255]) p2)
                         (zip r1 r2) rm)
                 (zip (im_data image1) (im_data image2)) (im_data maskIm)\<rparr>))"

text \<open>A uniform RGB image of the given width and height.\<close>

definition demo_image :: "nat \<Rightarrow> nat \<Rightarrow> image" where
  "demo_image w h = fromarray (full (h, w) [100, 150, 200]) ModeRGB"

definition demo_lib :: "nat lib" where
  "demo_lib =
     \<lparr>seed_int = (\<lambda>s. nat s mod 64),
      seed_os = (\<lambda>g. (g + 17) mod 64),
      rng_int = (\<lambda>low high g. (low + int g mod (high - low), (5 * g + 3) mod 64)),
      rng_uniform =
        (\<lambda>low high g. (low + (high - low) * (real (g mod 8) / 8), (5 * g + 3) mod 64)),
      np_sqrt = demo_sqrt,
      pchip_interpolate = demo_pchip,
      distance_transform_edt = demo_edt,
      mvn_pdf =
        (\<lambda>mean cov pos.
           if fst cov * fst (snd cov) < (snd (snd cov))\<^sup>2 then Inl ValueError
           else Inr (map (map (\<lambda>p. 1 / (1 + (fst p - fst mean)\<^sup>2 + (snd p - snd mean)\<^sup>2)))
                       pos)),
      cv_blur = demo_blur,
      GaussianBlur =
        (\<lambda>a ksize. if fst ksize \<le> 0 \<or> even (fst ksize) \<or> snd ksize \<le> 0 \<or> even (snd ksize)
                    then Inl ValueError else Inr a),
      getPerspectiveTransform =
        (\<lambda>src dst. if length src = 4 \<and> length dst = 4
                    then Inr [[1, 0, 0], [0, 1, 0], [0, 0, 1]] else Inl ValueError),
      warpPerspective =
        (\<lambda>src M dsize.
           Inr (map (\<lambda>r. map (\<lambda>c. if r < length src \<and> c < length (src ! r)
                                    then src ! r ! c else [0, 0, 0])
                            [0 ..< fst dsize])
                  [0 ..< snd dsize])),
      pad_symmetric = (\<lambda>a pad. a),
      convert = demo_convert,
      composite = demo_composite,
      deconvolve =
        (\<lambda>im basis. Inr (basis, replicate 3 (map (map (\<lambda>px. real (hd px) / 255)) (im_data im)))),
      array_to_colour_255 = map (map (map (\<lambda>v. nat \<lfloor>max 0 (min 255 v)\<rfloor>)))\<rparr>"

section \<open>Properties\<close>

subsection \<open>Seed derivation\<close>

lemma lower_artifact_types:
  "t \<in> set artifact_types \<Longrightarrow> lower t = t"
  by (auto simp: artifact_types_def lower_def lower_char_def)

lemma typeSeedAdd_range:
  "t \<in> set artifact_types \<Longrightarrow> \<exists>off. map_of typeSeedAdd t = Some off \<and> 1 \<le> off \<and> off \<le> 7"
  by (auto simp: artifact_types_def typeSeedAdd_def)

lemma typeSeedAdd_index:
  "t \<in> set artifact_types \<Longrightarrow> map_of typeSeedAdd t = Some off
     \<Longrightarrow> t = artifact_types ! nat (off - 1)"
  by (auto simp: artifact_types_def typeSeedAdd_def)

lemma typeSeedAdd_inj:
  assumes "t1 \<in> set artifact_types" "t2 \<in> set artifact_types"
    and "map_of typeSeedAdd t1 = Some off" "map_of typeSeedAdd t2 = Some off"
  shows "t1 = t2"
  using typeSeedAdd_index [OF assms(1,3)] typeSeedAdd_index [OF assms(2,4)] by simp

lemma mod_randMax_offsets:
  fixes a :: int
  assumes "1 \<le> x" "x \<le> 7" "1 \<le> y" "y \<le> 7"
    and "(a + x) mod randMax = (a + y) mod randMax"
  shows "x = y"
proof -
  have "randMax dvd (a + x) - (a + y)"
    using assms(5) by (simp add: mod_eq_dvd_iff)
  then have d: "randMax dvd x - y" by simp
  have "\<bar>x - y\<bar> < randMax"
    using assms(1-4) by (simp add: randMax_def)
  with d have "x - y = 0"
    using dvd_imp_le_int [of "x - y" randMax] by auto
  then show ?thesis by simp
qed

text \<open>
  Claim C2.  The seed of \<^verbatim>\<open>apply_artifact\<close> is a function of the identity string, the
  artifact type and the extra offset \<open>randAdd\<close> alone: for each of the seven artifact types
  it is the digest of the identity string plus \<open>randAdd\<close> plus the type's fixed offset,
  reduced modulo \<open>2^32 - 1\<close>, hence a non-negative integer below \<open>2^32 - 1\<close>; and for one
  identity string and one \<open>randAdd\<close>, two different artifact types give two different
  seeds.
\<close>

theorem apply_artifact_seed_derivation:
  assumes "t1 \<in> set artifact_types" and "t2 \<in> set artifact_types"
  shows "\<exists>off1 off2.
           map_of typeSeedAdd t1 = Some off1 \<and> map_of typeSeedAdd t2 = Some off2 \<and>
           apply_artifact_seed blake2s fID t1 randAdd
             = Inr ((blake2s fID + randAdd + off1) mod (2 ^ 32 - 1)) \<and>
           apply_artifact_seed blake2s fID t2 randAdd
             = Inr ((blake2s fID + randAdd + off2) mod (2 ^ 32 - 1)) \<and>
           0 \<le> (blake2s fID + randAdd + off1) mod (2 ^ 32 - 1) \<and>
           (blake2s fID + randAdd + off1) mod (2 ^ 32 - 1) < 2 ^ 32 - 1 \<and>
           (t1 \<noteq> t2 \<longrightarrow>
              apply_artifact_seed blake2s fID t1 randAdd
                \<noteq> apply_artifact_seed blake2s fID t2 randAdd)"
proof -
  obtain off1 where o1: "map_of typeSeedAdd t1 = Some off1" "1 \<le> off1" "off1 \<le> 7"
    using typeSeedAdd_range [OF assms(1)] by blast
  obtain off2 where o2: "map_of typeSeedAdd t2 = Some off2" "1 \<le> off2" "off2 \<le> 7"
    using typeSeedAdd_range [OF assms(2)] by blast
  let ?a = "blake2s fID + randAdd"
  have s1: "apply_artifact_seed blake2s fID t1 randAdd = Inr ((?a + off1) mod (2 ^ 32 - 1))"
    using o1(1) lower_artifact_types [OF assms(1)]
    by (simp add: apply_artifact_seed_def bindE_def subscript_def randMax_def)
  have s2: "apply_artifact_seed blake2s fID t2 randAdd = Inr ((?a + off2) mod (2 ^ 32 - 1))"
    using o2(1) lower_artifact_types [OF assms(2)]
    by (simp add: apply_artifact_seed_def bindE_def subscript_def randMax_def)
  have r1: "0 \<le> (?a + off1) mod (2 ^ 32 - 1)" by simp
  have r2: "(?a + off1) mod (2 ^ 32 - 1) < 2 ^ 32 - 1" by simp
  have d: "apply_artifact_seed blake2s fID t1 randAdd
             \<noteq> apply_artifact_seed blake2s fID t2 randAdd" if ne: "t1 \<noteq> t2"
  proof
    assume "apply_artifact_seed blake2s fID t1 randAdd
              = apply_artifact_seed blake2s fID t2 randAdd"
    with s1 s2 have "(?a + off1) mod randMax = (?a + off2) mod randMax"
      by (simp add: randMax_def)
    then have "off1 = off2"
      using mod_randMax_offsets [OF o1(2,3) o2(2,3)] by blast
    with o1(1) o2(1) have "t1 = t2"
      using typeSeedAdd_inj [OF assms, of off1] by simp
    with ne show False by blast
  qed
  from o1(1) o2(1) s1 s2 r1 r2 d show ?thesis by blast
qed

theorem apply_artifact_seed_derivation_witness:
  "apply_artifact_seed (\<lambda>s. int (length s) * 4294967295 - 3) ''slide/tile'' ''marker'' 0
     = Inr 4294967293 \<and>
   apply_artifact_seed (\<lambda>s. int (length s) * 4294967295 - 3) ''slide/tile'' ''fold'' 0
     = Inr 4294967294 \<and>
   apply_artifact_seed (\<lambda>s. int (length s) * 4294967295 - 3) ''slide/tile'' ''marker'' 0
     \<noteq> apply_artifact_seed (\<lambda>s. int (length s) * 4294967295 - 3) ''slide/tile'' ''fold'' 0"
proof -
  have m: "''marker'' \<in> set artifact_types" and f: "''fold'' \<in> set artifact_types"
    by (simp_all add: artifact_types_def)
  have ne: "''marker'' \<noteq> ''fold''" by simp
  show ?thesis
    using apply_artifact_seed_derivation [OF m f,
        of "\<lambda>s. int (length s) * 4294967295 - 3" "''slide/tile''" 0] ne
    by (simp add: typeSeedAdd_def)
qed

subsection \<open>Tools\<close>

lemma bindE_Inl [simp]: "bindE (Inl e) f = Inl e"
  by (simp add: bindE_def)

lemma bindE_Inr [simp]: "bindE (Inr x) f = f x"
  by (simp add: bindE_def)

lemma bindE_eq_Inr: "bindE m f = Inr y \<longleftrightarrow> (\<exists>x. m = Inr x \<and> f x = Inr y)"
  by (cases m) simp_all

lemma draw_ints_length: "draw_ints L low high n g = (vs, g') \<Longrightarrow> length vs = n"
  by (induction n arbitrary: g vs g') (auto split: prod.splits)

lemma randint_length:
  assumes "randint L low high n g = Inr (vs, g')"
  shows "0 \<le> n \<and> length vs = nat n"
  using assms draw_ints_length [of L low high "nat n" g vs g']
  by (auto simp: randint_def split: if_splits)

lemma np_index_last: "2 \<le> k \<Longrightarrow> np_index (nat k) (k - 1) = Inr (nat (k - 1))"
  by (simp add: np_index_def)

lemma set_coord_length: "set_coord pts i k v = Inr pts' \<Longrightarrow> length pts' = length pts"
  by (auto simp: set_coord_def bindE_eq_Inr)

lemma set_coord_zero:
  assumes "set_coord pts 0 k v = Inr pts'"
  shows "pts \<noteq> [] \<and> (k = 0 \<longrightarrow> fst (pts' ! 0) = v) \<and> (k \<noteq> 0 \<longrightarrow> snd (pts' ! 0) = v)"
  using assms by (cases pts) (auto simp: set_coord_def bindE_eq_Inr np_index_def)

lemma set_coord_last_keeps_first:
  assumes "set_coord pts (k - 1) c v = Inr pts'" and "length pts = nat k" and "2 \<le> k"
  shows "pts' ! 0 = pts ! 0"
  using assms by (auto simp: set_coord_def bindE_eq_Inr np_index_last)

subsection \<open>The start edge of a random path\<close>

lemma start_edge_forced:
  assumes "E \<in> {0, 1, 2, 3}"
  shows "start_edge L dm (EInt E) inPts g =
           bindE (set_coord inPts 0 (E mod 2) (E div 2 * (dim_at dm (E mod 2) - 1)))
             (\<lambda>pts. Inr (pts, Some E, g))"
  using assms by (auto simp: start_edge_def in_range_def eq_True_def Let_def)

lemma end_edge_keeps_first:
  assumes "end_edge L dm nPts startEdge endEdge pts edgeNum g = Inr (pts', g')"
    and "length pts = nat nPts" and "2 \<le> nPts"
  shows "pts' ! 0 = pts ! 0 \<and> length pts' = length pts"
  using assms
  by (auto simp: end_edge_def Let_def bindE_eq_Inr set_coord_length
           split: if_splits option.splits dest: set_coord_last_keeps_first)

lemma rand_handles_start_edge:
  assumes run: "rand_handles L dm nPts (EInt E) endEdge g = Inr (pts, g')"
    and E: "E \<in> {0, 1, 2, 3}" and n: "2 \<le> nPts"
  shows "length pts = nat nPts \<and>
         (E = 0 \<longrightarrow> fst (pts ! 0) = 0) \<and>
         (E = 1 \<longrightarrow> snd (pts ! 0) = 0) \<and>
         (E = 2 \<longrightarrow> fst (pts ! 0) = int (fst dm) - 1) \<and>
         (E = 3 \<longrightarrow> snd (pts ! 0) = int (snd dm) - 1)"
proof -
  from run obtain xs g1 ys g2 pts1 edgeNum g3 where
    xs: "randint L 0 (int (fst dm) - 1) nPts g = Inr (xs, g1)" and
    ys: "randint L 0 (int (snd dm) - 1) nPts g1 = Inr (ys, g2)" and
    st: "start_edge L dm (EInt E) (zip xs ys) g2 = Inr (pts1, edgeNum, g3)" and
    en: "end_edge L dm nPts (EInt E) endEdge pts1 edgeNum g3 = Inr (pts, g')"
    by (auto simp: rand_handles_def bindE_eq_Inr)
  have len0: "length (zip xs ys) = nat nPts"
    using randint_length [OF xs] randint_length [OF ys] by simp
  from st have
    sc: "set_coord (zip xs ys) 0 (E mod 2) (E div 2 * (dim_at dm (E mod 2) - 1)) = Inr pts1"
    by (auto simp: start_edge_forced [OF E] bindE_eq_Inr)
  have len1: "length pts1 = nat nPts"
    using set_coord_length [OF sc] len0 by simp
  have keep: "pts ! 0 = pts1 ! 0" and len: "length pts = nat nPts"
    using end_edge_keeps_first [OF en len1 n] len1 by simp_all
  have first:
    "(E mod 2 = 0 \<longrightarrow> fst (pts1 ! 0) = E div 2 * (dim_at dm (E mod 2) - 1)) \<and>
     (E mod 2 \<noteq> 0 \<longrightarrow> snd (pts1 ! 0) = E div 2 * (dim_at dm (E mod 2) - 1))"
    using set_coord_zero [OF sc] by simp
  from E first keep len show ?thesis
    by (auto simp: dim_at_def)
qed

text \<open>
  Claim C8.  When \<^verbatim>\<open>rand_spline\<close> is called without handle points and with a start
  edge index \<open>E\<close> from 0 to 3, and returns a path, the first of the handle points that it
  generated and interpolated lies on that edge: \<open>x = 0\<close> for \<open>E = 0\<close> (left), \<open>y = 0\<close>
  for \<open>E = 1\<close> (top), \<open>x = width - 1\<close> for \<open>E = 2\<close> (right) and \<open>y = height - 1\<close> for
  \<open>E = 3\<close> (bottom).  A path has at least two handle points: with \<^verbatim>\<open>nPts = 1\<close> the
  first point is the last one as well, the pin of the end edge is written over it, and the
  interpolation has a single knot.
\<close>

theorem rand_spline_start_edge:
  assumes run: "rand_spline L dm None nPts random_seed (EInt E) endEdge g = Inr (splXY, g')"
    and E: "E \<in> {0, 1, 2, 3}" and n: "2 \<le> nPts"
  shows "\<exists>g0 inPts.
           np_seed L random_seed g = Inr g0 \<and>
           rand_handles L dm nPts (EInt E) endEdge g0 = Inr (inPts, g') \<and>
           interpolate_handles L (map (\<lambda>(x, y). (real_of_int x, real_of_int y)) inPts)
             = Inr splXY \<and>
           length inPts = nat nPts \<and>
           (E = 0 \<longrightarrow> fst (inPts ! 0) = 0) \<and>
           (E = 1 \<longrightarrow> snd (inPts ! 0) = 0) \<and>
           (E = 2 \<longrightarrow> fst (inPts ! 0) = int (fst dm) - 1) \<and>
           (E = 3 \<longrightarrow> snd (inPts ! 0) = int (snd dm) - 1)"
proof -
  from run obtain g0 inPts where
    sd: "np_seed L random_seed g = Inr g0" and
    hd: "rand_handles L dm nPts (EInt E) endEdge g0 = Inr (inPts, g')" and
    ip: "interpolate_handles L (map (\<lambda>(x, y). (real_of_int x, real_of_int y)) inPts)
           = Inr splXY"
    by (auto simp: rand_spline_def bindE_eq_Inr)
  from sd hd ip rand_handles_start_edge [OF hd E n] show ?thesis by blast
qed

theorem rand_spline_start_edge_witness:
  "rand_spline demo_lib (3, 2) None 2 (Some 5) (EInt 2) (EInt 0) 0
     = Inr ([(2, 0), (1, 0), (0, 0)], 9) \<and>
   rand_handles demo_lib (3, 2) 2 (EInt 2) (EInt 0) 5 = Inr ([(2, 0), (0, 0)], 9) \<and>
   fst ([(2 :: int, 0 :: int), (0, 0)] ! 0) = int (fst (3 :: nat, 2 :: nat)) - 1"
proof -
  have sd: "np_seed demo_lib (Some 5) 0 = Inr 5"
    by (simp add: np_seed_def demo_lib_def)
  have hd: "rand_handles demo_lib (3, 2) 2 (EInt 2) (EInt 0) 5 = Inr ([(2, 0), (0, 0)], 9)"
    by code_simp
  have i4: "isqrt_below 4 4 = 2"
    by code_simp
  have ip: "interpolate_handles demo_lib [(2, 0), (0, 0)] = Inr [(2, 0), (1, 0), (0, 0)]"
    by (simp add: interpolate_handles_def distXY_def cumsum_def arange_def demo_lib_def
          demo_sqrt_def i4 demo_pchip_def upt_rec Let_def)
  have run: "rand_spline demo_lib (3, 2) None 2 (Some 5) (EInt 2) (EInt 0) 0
     = Inr ([(2, 0), (1, 0), (0, 0)], 9)"
    by (simp add: rand_spline_def sd hd ip)
  have E: "(2 :: int) \<in> {0, 1, 2, 3}" and n: "(2 :: int) \<le> 2" by simp_all
  from rand_spline_start_edge [OF run E n] run hd show ?thesis by simp
qed

subsection \<open>Fewer than two handle points\<close>

lemma interpolate_handles_short:
  assumes "length inPts < 2"
  shows "interpolate_handles L inPts = pchip_interpolate L [0] inPts [0]"
proof -
  from assms have "distXY L inPts = []"
    by (cases inPts) (auto simp: distXY_def)
  then show ?thesis
    by (simp add: interpolate_handles_def cumsum_def arange_def Let_def)
qed

lemma rand_handles_length:
  assumes "rand_handles L dm nPts startEdge endEdge g = Inr (pts, g')"
  shows "length pts = nat nPts"
proof -
  from assms obtain xs g1 ys g2 pts1 edgeNum g3 where
    xs: "randint L 0 (int (fst dm) - 1) nPts g = Inr (xs, g1)" and
    ys: "randint L 0 (int (snd dm) - 1) nPts g1 = Inr (ys, g2)" and
    st: "start_edge L dm startEdge (zip xs ys) g2 = Inr (pts1, edgeNum, g3)" and
    en: "end_edge L dm nPts startEdge endEdge pts1 edgeNum g3 = Inr (pts, g')"
    by (auto simp: rand_handles_def bindE_eq_Inr)
  have "length (zip xs ys) = nat nPts"
    using randint_length [OF xs] randint_length [OF ys] by simp
  moreover from st have "length pts1 = length (zip xs ys)"
    by (auto simp: start_edge_def Let_def bindE_eq_Inr set_coord_length split: if_splits)
  moreover from en have "length pts = length pts1"
    by (auto simp: end_edge_def Let_def bindE_eq_Inr set_coord_length
             split: if_splits option.splits)
  ultimately show ?thesis by simp
qed

text \<open>
  Claim C6, as the code has it.  \<^verbatim>\<open>rand_spline\<close> makes no test of its own on the
  number of handle points and raises no \<open>InvalidInputError\<close>.  With fewer than two handle
  points, supplied (\<^verbatim>\<open>inPts\<close> of length below 2) or random (\<^verbatim>\<open>nPts\<close> below 2), it
  seeds the generator, draws the random points if it has to, and hands the points to
  \<^verbatim>\<open>pchip_interpolate\<close> with the single knot 0 and the single sample position 0: the
  call ends as the seeding, the draw or that library call ends.
\<close>

theorem rand_spline_few_handles:
  "(length inPts < 2 \<longrightarrow>
      rand_spline L dm (Some inPts) nPts random_seed startEdge endEdge g =
        bindE (np_seed L random_seed g) (\<lambda>g0.
        bindE (pchip_interpolate L [0] inPts [0]) (\<lambda>splXY. Inr (splXY, g0)))) \<and>
   (nPts < 2 \<longrightarrow>
      rand_spline L dm None nPts random_seed startEdge endEdge g =
        bindE (np_seed L random_seed g) (\<lambda>g0.
        bindE (rand_handles L dm nPts startEdge endEdge g0) (\<lambda>(pts, g1).
        bindE (pchip_interpolate L [0] (map (\<lambda>(x, y). (real_of_int x, real_of_int y)) pts) [0])
          (\<lambda>splXY. Inr (splXY, g1)))))"
proof (intro conjI impI)
  assume "length inPts < 2"
  then show "rand_spline L dm (Some inPts) nPts random_seed startEdge endEdge g =
        bindE (np_seed L random_seed g) (\<lambda>g0.
        bindE (pchip_interpolate L [0] inPts [0]) (\<lambda>splXY. Inr (splXY, g0)))"
    by (simp add: rand_spline_def interpolate_handles_short)
next
  assume n: "nPts < 2"
  show "rand_spline L dm None nPts random_seed startEdge endEdge g =
        bindE (np_seed L random_seed g) (\<lambda>g0.
        bindE (rand_handles L dm nPts startEdge endEdge g0) (\<lambda>(pts, g1).
        bindE (pchip_interpolate L [0] (map (\<lambda>(x, y). (real_of_int x, real_of_int y)) pts) [0])
          (\<lambda>splXY. Inr (splXY, g1))))"
  proof (cases "np_seed L random_seed g")
    case (Inl e)
    then show ?thesis by (simp add: rand_spline_def)
  next
    case (Inr g0)
    show ?thesis
    proof (cases "rand_handles L dm nPts startEdge endEdge g0")
      case (Inl e)
      with Inr show ?thesis by (simp add: rand_spline_def)
    next
      case hd: (Inr r)
      obtain pts g1 where r: "r = (pts, g1)" by (cases r)
      from hd r n have "length pts < 2"
        using rand_handles_length [of L dm nPts startEdge endEdge g0 pts g1] by simp
      then have "interpolate_handles L (map (\<lambda>(x, y). (real_of_int x, real_of_int y)) pts)
          = pchip_interpolate L [0] (map (\<lambda>(x, y). (real_of_int x, real_of_int y)) pts) [0]"
        by (simp add: interpolate_handles_short)
      with Inr hd r show ?thesis by (simp add: rand_spline_def)
    qed
  qed
qed

theorem rand_spline_few_handles_witness:
  "length [(2 :: real, 2 :: real)] < 2 \<and>
   rand_spline demo_lib (10, 8) (Some [(2, 2)]) 1 (Some 7) (EBool True) (EBool True) 0
     = Inl ValueError \<and>
   (1 :: int) < 2 \<and>
   rand_spline demo_lib (10, 8) None 1 (Some 7) (EBool True) (EBool True) 0 = Inl ValueError"
proof -
  have p: "pchip_interpolate demo_lib [0] [(2, 2)] [0] = Inl ValueError"
    by (simp add: demo_lib_def demo_pchip_def)
  have s: "np_seed demo_lib (Some 7) 0 = Inr 7"
    by (simp add: np_seed_def demo_lib_def)
  have h: "rand_handles demo_lib (10, 8) 1 (EBool True) (EBool True) 7 = Inr ([(7, 0)], 8)"
    by code_simp
  have q: "pchip_interpolate demo_lib [0] [(7, 0)] [0] = Inl ValueError"
    by (simp add: demo_lib_def demo_pchip_def)
  show ?thesis
    using rand_spline_few_handles
      [of "[(2, 2)]" demo_lib "(10, 8)" 1 "Some 7" "EBool True" "EBool True" 0]
      p s h q
    by simp
qed

text \<open>
  Claim C6, as stated, fails: a single supplied handle point makes \<^verbatim>\<open>rand_spline\<close> fail
  with the library's \<^verbatim>\<open>ValueError\<close>, which is not an \<open>InvalidInputError\<close>.
\<close>

theorem rand_spline_single_point_counterexample:
  "rand_spline demo_lib (10, 10) (Some [(3, 4)]) 5 (Some 0) (EBool True) (EBool True) 0
     = Inl ValueError \<and>
   rand_spline demo_lib (10, 10) (Some [(3, 4)]) 5 (Some 0) (EBool True) (EBool True) 0
     \<noteq> Inl InvalidInputError"
  by (simp add: rand_spline_def np_seed_def interpolate_handles_def distXY_def cumsum_def
        arange_def demo_lib_def demo_pchip_def)

subsection \<open>Evaluating the library instance\<close>

lemma demo_lib_sel:
  "seed_int demo_lib = (\<lambda>s. nat s mod 64)"
  "seed_os demo_lib = (\<lambda>g. (g + 17) mod 64)"
  "np_sqrt demo_lib = demo_sqrt"
  "pchip_interpolate demo_lib = demo_pchip"
  "distance_transform_edt demo_lib = demo_edt"
  "cv_blur demo_lib = demo_blur"
  "pad_symmetric demo_lib = (\<lambda>a pad. a)"
  "GaussianBlur demo_lib =
     (\<lambda>a ksize. if fst ksize \<le> 0 \<or> even (fst ksize) \<or> snd ksize \<le> 0 \<or> even (snd ksize)
                 then Inl ValueError else Inr a)"
  "getPerspectiveTransform demo_lib =
     (\<lambda>src dst. if length src = 4 \<and> length dst = 4
                 then Inr [[1, 0, 0], [0, 1, 0], [0, 0, 1]] else Inl ValueError)"
  "warpPerspective demo_lib =
     (\<lambda>src M dsize.
        Inr (map (\<lambda>r. map (\<lambda>c. if r < length src \<and> c < length (src ! r)
                                 then src ! r ! c else [0, 0, 0])
                         [0 ..< fst dsize])
               [0 ..< snd dsize]))"
  by (simp_all add: demo_lib_def)

lemma demo_image_2_2:
  "demo_image 2 2 =
     \<lparr>im_mode = ModeRGB, im_size = (2, 2),
      im_data = [[[100, 150, 200], [100, 150, 200]], [[100, 150, 200], [100, 150, 200]]]\<rparr>"
  by (simp add: demo_image_def fromarray_def full_def numeral_2_eq_2)

lemma isqrt_below_1: "isqrt_below 1 1 = 1"
  by code_simp

lemma interpolate_unit_step:
  "interpolate_handles demo_lib [(0, 0), (0, 1)] = Inr [(0, 0), (0, 1)]"
  "interpolate_handles demo_lib [(1, 0), (0, 0)] = Inr [(1, 0), (0, 0)]"
  by (simp_all add: interpolate_handles_def distXY_def cumsum_def arange_def demo_lib_sel
        demo_sqrt_def isqrt_below_1 demo_pchip_def upt_rec Let_def)

subsection \<open>The path of \<^verbatim>\<open>add_sectioning\<close>\<close>

lemma add_sectioning_sampSpl_swapped:
  "add_sectioning_sampSpl L dm None (Some pts) nPts endEdge random_seed g =
     rand_spline L dm None nPts random_seed (EBool True) endEdge g"
  "add_sectioning_sampSpl L dm None None nPts endEdge random_seed g =
     rand_spline L dm None 5 random_seed (EBool True) (EBool True) g"
  by (simp_all add: add_sectioning_sampSpl_def)

text \<open>
  Claim C4 says that \<^verbatim>\<open>add_sectioning\<close> builds its path from the handle points
  \<^verbatim>\<open>inPts\<close> when they are given.  The code does not: on a 3 by 2 image with
  \<^verbatim>\<open>inPts\<close> = (0, 0), (0, 1), \<^verbatim>\<open>nPts\<close> = 2 and \<^verbatim>\<open>endEdge\<close> = 0,
  \<^verbatim>\<open>add_sectioning\<close> takes the path through two random handle points, (1, 0) and
  (0, 0) here, and never reads \<^verbatim>\<open>inPts\<close>; \<^verbatim>\<open>add_marker\<close> and \<^verbatim>\<open>add_fold\<close>
  on the same arguments take the path through the given points.
\<close>

theorem add_sectioning_inPts_not_used:
  "add_sectioning_sampSpl demo_lib (3, 2) None (Some [(0, 0), (0, 1)]) 2 (EInt 0) (Some 5) 0
     = Inr ([(1, 0), (0, 0)], 48) \<and>
   add_sectioning_sampSpl demo_lib (3, 2) None (Some [(0, 0), (0, 1)]) 2 (EInt 0) (Some 5) 0
     = rand_spline demo_lib (3, 2) None 2 (Some 5) (EBool True) (EInt 0) 0 \<and>
   add_marker_sampSpl demo_lib (3, 2) None (Some [(0, 0), (0, 1)]) 2 (Some 5) 0
     = Inr ([(0, 0), (0, 1)], 5) \<and>
   add_fold_sampSpl demo_lib (3, 2) None (Some [(0, 0), (0, 1)]) 2 (EInt 0) (Some 5) 0
     = Inr ([(0, 0), (0, 1)], 5)"
proof -
  have sd: "np_seed demo_lib (Some 5) 0 = Inr 5"
    by (simp add: np_seed_def demo_lib_sel)
  have hd: "rand_handles demo_lib (3, 2) 2 (EBool True) (EInt 0) 5 = Inr ([(1, 0), (0, 0)], 48)"
    by code_simp
  have rnd: "rand_spline demo_lib (3, 2) None 2 (Some 5) (EBool True) (EInt 0) 0
               = Inr ([(1, 0), (0, 0)], 48)"
    by (simp add: rand_spline_def sd hd interpolate_unit_step)
  have giv: "rand_spline demo_lib (3, 2) (Some [(0, 0), (0, 1)]) 5 (Some 5) (EBool True)
               (EBool True) 0 = Inr ([(0, 0), (0, 1)], 5)"
    by (simp add: rand_spline_def sd interpolate_unit_step)
  show ?thesis
    by (simp add: add_sectioning_sampSpl_swapped rnd add_marker_sampSpl_def
          add_fold_sampSpl_def giv)
qed

subsection \<open>Indices into the mask\<close>

lemma np_round_of_int: "np_round (of_int n) = n"
  by (simp add: np_round_def)

lemma mask_out_of_bounds:
  assumes "\<not> (- int h \<le> np_round y \<and> np_round y < int h)"
  shows "mask_round (h, w) ((x, y) # spl) = Inl IndexError"
  using assms by (auto simp: mask_round_def set_cell_def np_index_def)

lemma mask_astype_5_5: "mask_astype (2, 2) [(5, 5)] = Inl IndexError"
  by (simp add: mask_astype_def set_cell_def np_index_def py_trunc_def)

lemma mask_astype_0_0_5_5: "mask_astype (2, 2) [(0, 0), (5, 5)] = Inl IndexError"
  by (simp add: mask_astype_def full_def set_cell_def np_index_def py_trunc_def numeral_2_eq_2)

lemma fold_transform_0_5:
  "fold_transform demo_lib (2, 2) [(0, 0), (5, 5)] (1, 1) (0, 0) 0
     = Inr ([[1, 0, 0], [0, 1, 0], [0, 0, 1]], 40)"
proof -
  have d1: "draw_ints demo_lib (- 1) 1 4 0 = ([- 1, 0, - 1, 0], 20)"
    by code_simp
  have d2: "draw_ints demo_lib (- 1) 1 4 20 = ([- 1, 0, - 1, 0], 40)"
    by code_simp
  show ?thesis
    by (simp add: fold_transform_def bounding_box_def Let_def py_trunc_def randint_def d1 d2
          demo_lib_sel outBBPts_def sampSplBBPts_def)
qed

lemma warp_2_2:
  "warpPerspective demo_lib
     [[[100, 150, 200], [100, 150, 200]], [[100, 150, 200], [100, 150, 200]]]
     [[1, 0, 0], [0, 1, 0], [0, 0, 1]] (2, 2)
   = Inr [[[100, 150, 200], [100, 150, 200]], [[100, 150, 200], [100, 150, 200]]]"
  by (simp add: demo_lib_sel upt_rec)

text \<open>
  Claim C9 says that every generator clamps the coordinates of the path to
  \<open>[0, dimension - 1]\<close> before it indexes the raster.  Only \<^verbatim>\<open>add_tear\<close> does (lines
  769 to 771).  \<^verbatim>\<open>add_marker\<close>, \<^verbatim>\<open>add_fold\<close> and \<^verbatim>\<open>add_sectioning\<close> index the
  mask with the rounded or truncated coordinates as they are: on a 2 by 2 image, a path
  with the sample (5, 5) raises \<^verbatim>\<open>IndexError\<close> in all three, and a negative
  coordinate is counted from the opposite border.
\<close>

theorem mask_index_not_clamped:
  "add_marker demo_lib (demo_image 2 2) (Some 0) 3 (Some [(5, 5)]) None 100 (3 / 4) (Some [0, 0, 0])
     [(0, 50), (0, 50), (0, 100)] 0 = Inl IndexError \<and>
   add_sectioning demo_lib (demo_image 2 2) 240 (Some 0) (1 / 2) (4 / 5) True (Some [(5, 5)]) None
     2 (EInt (- 2)) 0 = Inl IndexError \<and>
   add_fold demo_lib (demo_image 2 2) None (Some [(0, 0), (5, 5)]) None (Some 0) (1, 1) 200
     (Some (0, 0)) False 1 3 (EInt (- 2)) 0 = Inl IndexError \<and>
   mask_round (3, 3) [(- 1, - 1)] = Inr [[1, 1, 1], [1, 1, 1], [1, 1, 0]]"
proof -
  have sd: "np_seed demo_lib (Some 0) 0 = Inr 0"
    by (simp add: np_seed_def demo_lib_sel)
  have r5: "np_round 5 = 5"
    using np_round_of_int [of 5] by simp
  have m: "mask_round (2, 2) [(5, 5)] = Inl IndexError"
    by (simp add: mask_out_of_bounds r5)
  have marker: "add_marker demo_lib (demo_image 2 2) (Some 0) 3 (Some [(5, 5)]) None 100 (3 / 4)
      (Some [0, 0, 0]) [(0, 50), (0, 50), (0, 100)] 0 = Inl IndexError"
    by (simp add: add_marker_def add_marker_bwReg_def add_marker_sampSpl_def sd demo_image_2_2 m)
  have sect: "add_sectioning demo_lib (demo_image 2 2) 240 (Some 0) (1 / 2) (4 / 5) True
      (Some [(5, 5)]) None 2 (EInt (- 2)) 0 = Inl IndexError"
    by (simp add: add_sectioning_def add_sectioning_bw_reg_def add_sectioning_sampSpl_def sd
          demo_image_2_2 mask_astype_5_5)
  have layer: "fold_layer demo_lib (demo_image 2 2) None (Some [(0, 0), (5, 5)]) None (Some 0)
      (1, 1) 200 (Some (0, 0)) False 3 (EInt (- 2)) 0 = Inl IndexError"
    by (simp add: fold_layer_def add_fold_sampSpl_def demo_image_2_2 Let_def
          fold_transform_0_5 demo_lib_sel(7) warp_2_2 fold_bwReg_def mask_astype_0_0_5_5)
  have fold: "add_fold demo_lib (demo_image 2 2) None (Some [(0, 0), (5, 5)]) None (Some 0)
      (1, 1) 200 (Some (0, 0)) False 1 3 (EInt (- 2)) 0 = Inl IndexError"
    by (subst add_fold.simps) (simp add: sd layer)
  have r1: "np_round (- 1) = - 1"
    using np_round_of_int [of "- 1"] by simp
  have wrap: "mask_round (3, 3) [(- 1, - 1)] = Inr [[1, 1, 1], [1, 1, 1], [1, 1, 0]]"
    by (simp add: mask_round_def full_def set_cell_def np_index_def r1 numeral_3_eq_3)
  from marker sect fold wrap show ?thesis by simp
qed

subsection \<open>\<^verbatim>\<open>add_fold\<close> without layers\<close>

text \<open>
  Claim C3, as the code has it.  For \<^verbatim>\<open>nLayers < 1\<close>, \<^verbatim>\<open>add_fold\<close> seeds the
  generator and does nothing else: whatever the other arguments are, it returns the input
  image itself if the seeding succeeds, that is for \<^verbatim>\<open>random_seed\<close> \<^verbatim>\<open>None\<close> or an
  integer from 0 to \<open>2^32 - 1\<close>, and raises the \<^verbatim>\<open>ValueError\<close> of
  \<^verbatim>\<open>np.random.seed\<close> for any other seed.
\<close>

theorem add_fold_no_layers:
  assumes "nLayers < 1"
  shows "add_fold L inputIm sampArr sampSpl inPts random_seed scaleXY width sampShiftXY
           randEdge nLayers nPts endEdge g
         = bindE (np_seed L random_seed g) (\<lambda>g0. Inr (inputIm, g0)) \<and>
         (random_seed = None \<or> (\<exists>s. random_seed = Some s \<and> 0 \<le> s \<and> s \<le> 2 ^ 32 - 1) \<longrightarrow>
            (\<exists>g0. add_fold L inputIm sampArr sampSpl inPts random_seed scaleXY width sampShiftXY
                    randEdge nLayers nPts endEdge g = Inr (inputIm, g0)))"
proof -
  have eq: "add_fold L inputIm sampArr sampSpl inPts random_seed scaleXY width sampShiftXY
           randEdge nLayers nPts endEdge g
         = bindE (np_seed L random_seed g) (\<lambda>g0. Inr (inputIm, g0))"
    using assms by (subst add_fold.simps) (auto simp: bindE_def split: sum.splits)
  have "\<exists>g0. np_seed L random_seed g = Inr g0"
    if "random_seed = None \<or> (\<exists>s. random_seed = Some s \<and> 0 \<le> s \<and> s \<le> 2 ^ 32 - 1)"
    using that by (auto simp: np_seed_def)
  with eq show ?thesis by auto
qed

theorem add_fold_no_layers_witness:
  "(0 :: int) < 1 \<and>
   add_fold demo_lib (demo_image 2 2) None None None (Some 4294967295) (1, 1) 200 None False 0 3
     (EInt (- 2)) 0 = Inr (demo_image 2 2, 63)"
proof -
  have n: "(0 :: int) < 1" by simp
  have sd: "np_seed demo_lib (Some 4294967295) 0 = Inr 63"
    by (simp add: np_seed_def demo_lib_sel)
  show ?thesis
    using add_fold_no_layers [OF n, of demo_lib "demo_image 2 2" None None None
        "Some 4294967295" "(1, 1)" 200 None False 3 "EInt (- 2)" 0] sd
    by simp
qed

text \<open>
  Claim C3, as stated, fails: with \<^verbatim>\<open>nLayers = 0\<close> and \<^verbatim>\<open>random_seed = -1\<close> the
  seeding in the first line of \<^verbatim>\<open>add_fold\<close> raises \<^verbatim>\<open>ValueError\<close> and no image is
  returned.
\<close>

theorem add_fold_no_layers_counterexample:
  "add_fold demo_lib (demo_image 2 2) None None None (Some (- 1)) (1, 1) 200 None False 0 3
     (EInt (- 2)) 0 = Inl ValueError"
  by (subst add_fold.simps) (simp add: np_seed_def)

subsection \<open>\<^verbatim>\<open>add_fold\<close> with several layers and no seed\<close>

text \<open>
  Claim C10, as the code has it.  With \<^verbatim>\<open>nLayers >= 2\<close> and \<^verbatim>\<open>random_seed\<close>
  \<^verbatim>\<open>None\<close>, \<^verbatim>\<open>add_fold\<close> never returns an image: it raises \<^verbatim>\<open>TypeError\<close> at
  \<^verbatim>\<open>random_seed+1\<close> when its first layer completes, and the exception of the first
  layer when that layer fails.
\<close>

theorem add_fold_no_seed:
  assumes "2 \<le> nLayers"
  shows "add_fold L inputIm sampArr sampSpl inPts None scaleXY width sampShiftXY randEdge
           nLayers nPts endEdge g
         = (case fold_layer L inputIm sampArr sampSpl inPts None scaleXY width sampShiftXY
                  randEdge nPts endEdge (seed_os L g) of
              Inl e \<Rightarrow> Inl e
            | Inr r \<Rightarrow> Inl TypeError) \<and>
         (\<forall>r. add_fold L inputIm sampArr sampSpl inPts None scaleXY width sampShiftXY randEdge
                 nLayers nPts endEdge g \<noteq> Inr r)"
proof -
  have eq: "add_fold L inputIm sampArr sampSpl inPts None scaleXY width sampShiftXY randEdge
           nLayers nPts endEdge g
         = (case fold_layer L inputIm sampArr sampSpl inPts None scaleXY width sampShiftXY
                  randEdge nPts endEdge (seed_os L g) of
              Inl e \<Rightarrow> Inl e
            | Inr r \<Rightarrow> Inl TypeError)"
    using assms
    by (subst add_fold.simps) (simp add: np_seed_def split: sum.splits prod.splits)
  then show ?thesis
    by (auto split: sum.splits)
qed

lemma fold_layer_2_2:
  "\<exists>r. fold_layer demo_lib (demo_image 2 2) None (Some [(0, 0), (1, 1)]) None None (4, 4) 200
         (Some (0, 0)) False 3 (EInt (- 2)) 17 = Inr r"
proof -
  have d1: "draw_ints demo_lib (- 1) 1 4 17 = ([0, - 1, 0, - 1], 21)"
    by code_simp
  have d2: "draw_ints demo_lib (- 1) 1 4 21 = ([0, - 1, 0, - 1], 25)"
    by code_simp
  have t: "fold_transform demo_lib (2, 2) [(0, 0), (1, 1)] (4, 4) (0, 0) 17
             = Inr ([[1, 0, 0], [0, 1, 0], [0, 0, 1]], 25)"
    by (simp add: fold_transform_def bounding_box_def Let_def py_trunc_def randint_def d1 d2
          demo_lib_sel outBBPts_def sampSplBBPts_def)
  have r: "fold_bwReg demo_lib (2, 2) [(0, 0), (1, 1)] 200 False 25
             = Inr ([[True, True], [True, True]], 25)"
    by (simp add: fold_bwReg_def mask_astype_def full_def set_cell_def np_index_def py_trunc_def
          numeral_2_eq_2 demo_lib_sel demo_edt_def zero_cells_def sq_dist_def demo_sqrt_def
          threshold_def)
  have c: "\<exists>im. fold_composite demo_lib
             [[[100, 150, 200], [100, 150, 200]], [[100, 150, 200], [100, 150, 200]]]
             [[True, True], [True, True]]
             [[[100, 150, 200], [100, 150, 200]], [[100, 150, 200], [100, 150, 200]]] (11, 11)
           = Inr im"
    by (simp add: fold_composite_def demo_lib_sel)
  from c show ?thesis
    by (auto simp add: fold_layer_def add_fold_sampSpl_def demo_image_2_2 t warp_2_2 r Let_def
          demo_lib_sel(7))
qed

theorem add_fold_no_seed_witness:
  "(2 :: int) \<le> 2 \<and>
   add_fold demo_lib (demo_image 2 2) None (Some [(0, 0), (1, 1)]) None None (4, 4) 200
     (Some (0, 0)) False 2 3 (EInt (- 2)) 0 = Inl TypeError"
proof -
  have n: "(2 :: int) \<le> 2" by simp
  have os: "seed_os demo_lib 0 = 17"
    by (simp add: demo_lib_sel)
  from fold_layer_2_2 obtain r where
    "fold_layer demo_lib (demo_image 2 2) None (Some [(0, 0), (1, 1)]) None None (4, 4) 200
       (Some (0, 0)) False 3 (EInt (- 2)) 17 = Inr r"
    by blast
  with add_fold_no_seed [OF n, of demo_lib "demo_image 2 2" None "Some [(0, 0), (1, 1)]" None
      "(4, 4)" 200 "Some (0, 0)" False 3 "EInt (- 2)" 0] os
  show ?thesis by simp
qed

text \<open>
  Claim C10, as stated, fails: for a 1 by 1 image and the default arguments the first layer
  does not complete, since \<^verbatim>\<open>rand_spline\<close> draws from the empty range
  \<^verbatim>\<open>np.random.randint(0, size=(3,1))\<close>, and the call raises \<^verbatim>\<open>ValueError\<close>, not
  \<^verbatim>\<open>TypeError\<close>.
\<close>

theorem add_fold_no_seed_counterexample:
  "add_fold demo_lib (demo_image 1 1) None None None None (1, 1) 200 None False 2 3 (EInt (- 2)) 0
     = Inl ValueError"
proof -
  have sd: "np_seed demo_lib None g = Inr ((g + 17) mod 64)" for g
    by (simp add: np_seed_def demo_lib_sel)
  have "fold_layer demo_lib (demo_image 1 1) None None None None (1, 1) 200 None False 3
          (EInt (- 2)) 17 = Inl ValueError"
    by (simp add: fold_layer_def add_fold_sampSpl_def rand_spline_def sd rand_handles_def
          randint_def demo_image_def fromarray_def full_def)
  then show ?thesis
    by (subst add_fold.simps) (simp add: sd)
qed

end
